theory Spec2Isabelle
  imports Main "HOL-Library.Char_ord" "HOL-Library.List_Lexorder"
begin

section \<open>Data model\<close>

text \<open>
  The workflow backend resolves a workflow reference, materializes its repository in a
  content-addressed cache and stages its inputs. This theory embeds the parts of
  \<^verbatim>\<open>wfexs_backend/workflow.py\<close> (class \<^verbatim>\<open>WF\<close>) and
  \<^verbatim>\<open>wfexs_backend/docker_container.py\<close> that do this, function by function.

  Python strings are \<open>string\<close>s holding their UTF-8 bytes; the bytewise lexicographic order
  of \<open>HOL-Library.List_Lexorder\<close> over \<open>HOL-Library.Char_ord\<close> is then the order of
  Python's \<^verbatim>\<open><\<close> on \<^verbatim>\<open>str\<close>, since UTF-8 preserves the order of code points.
\<close>

type_synonym path = string

text \<open>Decoded JSON / YAML values: the parameter tree, the credentials and the manifests.
  A dict is the list of its items in insertion order.\<close>

datatype pyval =
    PNone
  | PBool bool
  | PInt int
  | PStr string
  | PList "pyval list"
  | PDict "(string \<times> pyval) list"

text \<open>The external commands and calls a run performs, in the order it performs them.\<close>

datatype action =
    GitClone bool string path
  | GitCheckout string path
  | GitSubmoduleUpdate path
  | GitRevParse path
  | UrlOpen string
  | SchemeHandlerCall string string path "pyval option"
  | DockerInspect string
  | DockerPull string

text \<open>Every exception the embedded code raises. The first group are the messages of
  \<^verbatim>\<open>WFException\<close>; the others are Python's own exceptions and
  \<^verbatim>\<open>ContainerFactoryException\<close>.\<close>

datatype wf_error =
    UnableToCreateDirs path
  | UnableToPull string "string option" int
  | NotLabelledAsWorkflow
  | VersionNotFound
  | NoValidVersion
  | NoValidDescriptorType
  | NoAcknowledgedDescriptorType
  | DescriptorTypeNotAvailable string
  | DescriptorTypeNotAcknowledged string
  | CannotDownloadROCrate
  | LanguageNotAcknowledged "string option"
  | LanguageMismatch string "string option"
  | UnableToGuessRepository
  | NoSchemeHandler string string
  | NoSecurityContext pyval string
  | UnrecognizedInputClass pyval

datatype error =
    WFException wf_error
  | RuntimeError
  | KeyError string
  | IndexError
  | TypeError
  | AttributeError
  | FileNotFoundError path
  | FileExistsError path
  | UrlError string
  | HandlerError string
  | CouldNotMaterializeImage string int
  | DockerDidNotMaterialize string

text \<open>
  The world outside the process: \<open>paths\<close> is the set of paths for which
  \<^verbatim>\<open>os.path.exists\<close> holds (only the paths the code tests or creates are tracked, and a
  symbolic link counts as its target, which the cache keeps), \<open>heads\<close> is what
  \<^verbatim>\<open>git rev-parse --verify HEAD\<close> prints in a directory, \<open>trace\<close> is the list of
  external commands run so far.
\<close>

record world =
  paths :: "path set"
  heads :: "path \<Rightarrow> string"
  trace :: "action list"

text \<open>The result of \<^verbatim>\<open>urllib.parse.urlparse\<close>, as far as the code reads it.\<close>

record parsed_url =
  scheme :: string
  netloc :: string
  path :: string

record materialized_content =
  local :: path
  uri :: string
  prettyFilename :: string

record materialized_input =
  name :: string
  values_of :: "(materialized_content list) + (pyval list)"

text \<open>An engine descriptor (\<^verbatim>\<open>WorkflowType\<close>), as far as the resolver reads it.\<close>

record workflow_type =
  engineName :: string
  engine_uri :: string
  trs_descriptor :: string

text \<open>
  The decoded answer of the tool registry. Of an entry of \<^verbatim>\<open>versions\<close> the code reads
  \<^verbatim>\<open>str(v.get('id', ''))\<close> and the value under \<^verbatim>\<open>descriptor_type\<close>, which may be
  missing, or may not be a list; an entry may fail to be a dict at all.
\<close>

datatype descriptor_field = DTAbsent | DTNotAList | DTList "string list"

datatype tool_version = NotADict | ToolVersion string descriptor_field

record tool_desc =
  toolclass_name :: string
  versions :: "tool_version list"

text \<open>
  An opened RO-Crate: of each entity its \<^verbatim>\<open>@type\<close> and, when it has one, the
  \<^verbatim>\<open>@id\<close> of its \<^verbatim>\<open>identifier\<close>; of the root dataset the value of \<^verbatim>\<open>isBasedOn\<close>.
\<close>

record crate_entity =
  entity_type :: string
  identifier_id :: "string option"

record rocrate =
  entities :: "crate_entity list"
  isBasedOn :: "string option"

text \<open>A materialized container image (\<^verbatim>\<open>Container\<close>).\<close>

datatype container_type = Docker

record container =
  origTaggedName :: string
  taggedName :: string
  signature :: pyval
  fingerprint :: "pyval option"
  ctype :: container_type

text \<open>A scheme handler \<^verbatim>\<open>handler(remote_file, cachedFilename, secContext=...)\<close>:
  it changes the world and may raise.\<close>

type_synonym handler = "string \<Rightarrow> path \<Rightarrow> pyval option \<Rightarrow> world \<Rightarrow> error option \<times> world"

text \<open>
  What the code takes from outside this repository: library functions
  (\<^verbatim>\<open>hashlib.sha1(...).hexdigest()\<close>, \<^verbatim>\<open>urllib.parse.urlparse\<close>,
  \<^verbatim>\<open>urllib.parse.quote(s, safe='')\<close>, \<^verbatim>\<open>urllib.parse.urljoin\<close>, \<^verbatim>\<open>json.loads\<close>), the
  operating system (whether \<^verbatim>\<open>os.makedirs\<close> fails), the git executable (exit status and
  new world of a command), the network (the decoded answer of the registry or the
  exception of the request; whether the download of an archive goes through), the
  \<^verbatim>\<open>rocrate\<close> library (the opened archive or its exception) and the docker executable
  (exit status, standard output and error, new world).
\<close>

record env =
  sha1 :: "string \<Rightarrow> string"
  urlparse :: "string \<Rightarrow> parsed_url"
  quote :: "string \<Rightarrow> string"
  urljoin :: "string \<Rightarrow> string \<Rightarrow> string"
  json_loads :: "string \<Rightarrow> pyval option"
  makedirs_fails :: "world \<Rightarrow> path \<Rightarrow> bool"
  git :: "action \<Rightarrow> world \<Rightarrow> int \<times> world"
  trs_get :: "string \<Rightarrow> world \<Rightarrow> error + tool_desc"
  crate_download_fails :: "world \<Rightarrow> string \<Rightarrow> bool"
  rocrate_open :: "path \<Rightarrow> world \<Rightarrow> error + rocrate"
  docker_inspect :: "string \<Rightarrow> world \<Rightarrow> (int \<times> string \<times> string) \<times> world"
  docker_pull :: "string \<Rightarrow> world \<Rightarrow> (int \<times> string \<times> string) \<times> world"

text \<open>The attributes of a \<^verbatim>\<open>WF\<close> instance that the embedded methods read.
  \<^verbatim>\<open>WORKFLOW_ENGINES\<close> is the list of the descriptors of the engine classes, of which
  only the CWL one is in the sources at hand.\<close>

record wf =
  WORKFLOW_ENGINES :: "workflow_type list"
  wf_id :: string
  version_id :: "string option"
  descriptor_type :: "string option"
  trs_endpoint :: string
  creds_config :: "(string \<times> pyval) list"
  cacheWorkflowDir :: path
  cacheROCrateDir :: path
  cacheWorkflowInputsDir :: path
  schemeHandlers :: "(string \<times> handler) list"

section \<open>Library functions with a fixed meaning\<close>

text \<open>\<^verbatim>\<open>os.path.join(a, b)\<close> of \<^verbatim>\<open>posixpath\<close>, for two components.\<close>

definition path_join :: "path \<Rightarrow> string \<Rightarrow> path" where
  "path_join a b =
     (if take 1 b = ''/'' then b
      else if a = [] \<or> last a = CHR ''/'' then a @ b
      else a @ ''/'' @ b)"

text \<open>\<^verbatim>\<open>str.rstrip()\<close> on text decoded as ISO-8859-1: the whitespace characters are
  9 to 13, 28 to 32, 133 and 160.\<close>

definition py_isspace :: "char \<Rightarrow> bool" where
  "py_isspace c =
     (let n = (of_char c :: nat)
      in (9 \<le> n \<and> n \<le> 13) \<or> (28 \<le> n \<and> n \<le> 32) \<or> n = 133 \<or> n = 160)"

definition rstrip :: "string \<Rightarrow> string" where
  "rstrip s = rev (dropWhile py_isspace (rev s))"

section \<open>The repository cache: \<^verbatim>\<open>WF.doMaterializeRepo\<close>\<close>

text \<open>\<^verbatim>\<open>os.makedirs(p)\<close> inside \<^verbatim>\<open>try ... except IOError\<close>: either the directory
  exists afterwards or the \<^verbatim>\<open>WFException\<close> is raised.\<close>

definition makedirs :: "env \<Rightarrow> path \<Rightarrow> world \<Rightarrow> error + world" where
  "makedirs e p w =
     (if makedirs_fails e w p then Inl (WFException (UnableToCreateDirs p))
      else Inr (w\<lparr>paths := insert p (paths w)\<rparr>))"

text \<open>One git subprocess: the executable decides exit status and world, the command is
  recorded.\<close>

definition run_git :: "env \<Rightarrow> action \<Rightarrow> world \<Rightarrow> int \<times> world" where
  "run_git e cmd w = (case git e cmd w of (rv, w') \<Rightarrow> (rv, w'\<lparr>trace := trace w @ [cmd]\<rparr>))"

text \<open>A git subprocess started with \<^verbatim>\<open>Popen(..., cwd=d)\<close>: \<^verbatim>\<open>Popen\<close> raises when
  \<^verbatim>\<open>d\<close> does not exist.\<close>

definition run_git_in :: "env \<Rightarrow> action \<Rightarrow> path \<Rightarrow> world \<Rightarrow> (error + int) \<times> world" where
  "run_git_in e cmd d w =
     (if d \<notin> paths w then (Inl (FileNotFoundError d), w)
      else (case run_git e cmd w of (rv, w') \<Rightarrow> (Inr rv, w')))"

text \<open>Lines 400 to 433: clone (with \<^verbatim>\<open>-n\<close> exactly when a tag is given), then the checkout
  when a tag is given and the clone went well, then the submodule update when all went
  well. The value is the last exit status.\<close>

definition git_materialize ::
  "env \<Rightarrow> string \<Rightarrow> string option \<Rightarrow> path \<Rightarrow> world \<Rightarrow> (error + int) \<times> world" where
  "git_materialize e repoURL repoTag repo_tag_destdir w =
     (case run_git e (GitClone (repoTag \<noteq> None) repoURL repo_tag_destdir) w of
        (rv1, w1) \<Rightarrow>
          (case (case repoTag of
                   Some t \<Rightarrow> if rv1 = 0
                             then run_git_in e (GitCheckout t repo_tag_destdir) repo_tag_destdir w1
                             else (Inr rv1, w1)
                 | None \<Rightarrow> (Inr rv1, w1)) of
             (Inl err, w2) \<Rightarrow> (Inl err, w2)
           | (Inr rv2, w2) \<Rightarrow>
               if rv2 = 0
               then run_git_in e (GitSubmoduleUpdate repo_tag_destdir) repo_tag_destdir w2
               else (Inr rv2, w2)))"

text \<open>Lines 448 to 456: \<^verbatim>\<open>rev-parse\<close> runs in the slot directory (\<^verbatim>\<open>Popen\<close> raises when
  its \<^verbatim>\<open>cwd\<close> does not exist), its exit status is not looked at, its output is stripped.\<close>

definition git_rev_parse :: "path \<Rightarrow> world \<Rightarrow> (error + string) \<times> world" where
  "git_rev_parse d w =
     (if d \<notin> paths w then (Inl (FileNotFoundError d), w)
      else (Inr (rstrip (heads w d)), w\<lparr>trace := trace w @ [GitRevParse d]\<rparr>))"

definition repo_destdir_of :: "env \<Rightarrow> wf \<Rightarrow> string \<Rightarrow> path" where
  "repo_destdir_of e self repoURL = path_join (cacheWorkflowDir self) (sha1 e repoURL)"

definition repo_tag_destdir_of :: "env \<Rightarrow> wf \<Rightarrow> string \<Rightarrow> string option \<Rightarrow> path" where
  "repo_tag_destdir_of e self repoURL repoTag =
     path_join (repo_destdir_of e self repoURL)
       (sha1 e (case repoTag of None \<Rightarrow> [] | Some t \<Rightarrow> t))"

text \<open>What is asked of git: a command that exits with 0 leaves the directory \<open>d\<close> in
  place.\<close>

definition git_keeps :: "env \<Rightarrow> path \<Rightarrow> bool" where
  "git_keeps e d = (\<forall>cmd w w'. git e cmd w = (0, w') \<longrightarrow> d \<in> paths w \<longrightarrow> d \<in> paths w')"

definition doMaterializeRepo ::
  "env \<Rightarrow> wf \<Rightarrow> string \<Rightarrow> string option \<Rightarrow> world \<Rightarrow> (error + path \<times> string) \<times> world" where
  "doMaterializeRepo e self repoURL repoTag w =
     (let repo_destdir = repo_destdir_of e self repoURL;
          repo_tag_destdir = repo_tag_destdir_of e self repoURL repoTag
      in case (if repo_destdir \<notin> paths w then makedirs e repo_destdir w else Inr w) of
           Inl err \<Rightarrow> (Inl err, w)
         | Inr w1 \<Rightarrow>
             (case (if repo_tag_destdir \<notin> paths w1
                    then git_materialize e repoURL repoTag repo_tag_destdir w1
                    else (Inr 0, w1)) of
                (Inl err, w2) \<Rightarrow> (Inl err, w2)
              | (Inr retval, w2) \<Rightarrow>
                  if retval \<noteq> 0 then (Inl (WFException (UnableToPull repoURL repoTag retval)), w2)
                  else (case git_rev_parse repo_tag_destdir w2 of
                          (Inl err, w3) \<Rightarrow> (Inl err, w3)
                        | (Inr repo_effective_checkout, w3) \<Rightarrow>
                            (Inr (repo_tag_destdir, repo_effective_checkout), w3))))"

section \<open>Python operations on strings and values\<close>

text \<open>\<^verbatim>\<open>s.split(c)\<close> for a one-character separator: never an empty list.\<close>

fun split_on :: "char \<Rightarrow> string \<Rightarrow> string list" where
  "split_on c [] = [[]]"
| "split_on c (x # xs) =
     (if x = c then [] # split_on c xs
      else (case split_on c xs of
              y # ys \<Rightarrow> (x # y) # ys
            | [] \<Rightarrow> [[x]]))"

text \<open>\<^verbatim>\<open>sep.join(xs)\<close>.\<close>

fun join_with :: "string \<Rightarrow> string list \<Rightarrow> string" where
  "join_with sep [] = []"
| "join_with sep [x] = x"
| "join_with sep (x # y # ys) = x @ sep @ join_with sep (y # ys)"

text \<open>\<^verbatim>\<open>s.lower()\<close> on the scheme of a URL, which \<^verbatim>\<open>urlparse\<close> only recognises when it is
  made of ASCII letters, digits, \<^verbatim>\<open>+\<close>, \<^verbatim>\<open>-\<close> and \<^verbatim>\<open>.\<close>.\<close>

definition lower_char :: "char \<Rightarrow> char" where
  "lower_char c =
     (let n = (of_char c :: nat) in if 65 \<le> n \<and> n \<le> 90 then char_of (n + 32) else c)"

definition str_lower :: "string \<Rightarrow> string" where
  "str_lower s = map lower_char s"

text \<open>\<^verbatim>\<open>s.startswith(p)\<close> and \<^verbatim>\<open>s.endswith(p)\<close>.\<close>

definition startswith :: "string \<Rightarrow> string \<Rightarrow> bool" where
  "startswith s p = (take (length p) s = p)"

definition endswith :: "string \<Rightarrow> string \<Rightarrow> bool" where
  "endswith s p = (length p \<le> length s \<and> drop (length s - length p) s = p)"

text \<open>\<^verbatim>\<open>str(n)\<close> of a counter that starts at 0 and only grows.\<close>

fun str_of_nat :: "nat \<Rightarrow> string" where
  "str_of_nat n =
     (if n < 10 then [''0123456789'' ! n]
      else str_of_nat (n div 10) @ [''0123456789'' ! (n mod 10)])"

declare str_of_nat.simps [simp del]

text \<open>\<^verbatim>\<open>d.get(k)\<close> followed by a test \<^verbatim>\<open>is not None\<close>: a key bound to \<^verbatim>\<open>None\<close> counts as
  absent.\<close>

definition dict_get :: "(string \<times> pyval) list \<Rightarrow> string \<Rightarrow> pyval option" where
  "dict_get d k = (case map_of d k of Some PNone \<Rightarrow> None | r \<Rightarrow> r)"

text \<open>Truth value of a decoded value, as \<^verbatim>\<open>if x\<close> takes it.\<close>

fun py_truthy :: "pyval \<Rightarrow> bool" where
  "py_truthy PNone = False"
| "py_truthy (PBool b) = b"
| "py_truthy (PInt i) = (i \<noteq> 0)"
| "py_truthy (PStr s) = (s \<noteq> [])"
| "py_truthy (PList l) = (l \<noteq> [])"
| "py_truthy (PDict d) = (d \<noteq> [])"

section \<open>Remote object fetch and cache: \<^verbatim>\<open>WF.downloadInputFile\<close>\<close>

text \<open>Lines 686 to 691: the security context of a context name. \<^verbatim>\<open>creds_config.get\<close>
  raises on an unhashable key, finds nothing under a key that is not a string, and a
  context that is \<^verbatim>\<open>None\<close> counts as missing.\<close>

definition get_secContext ::
  "wf \<Rightarrow> pyval option \<Rightarrow> string \<Rightarrow> error + pyval option" where
  "get_secContext self contextName remote_file =
     (case contextName of
        None \<Rightarrow> Inr None
      | Some (PList l) \<Rightarrow> Inl TypeError
      | Some (PDict d) \<Rightarrow> Inl TypeError
      | Some (PStr s) \<Rightarrow>
          (case dict_get (creds_config self) s of
             None \<Rightarrow> Inl (WFException (NoSecurityContext (PStr s) remote_file))
           | Some c \<Rightarrow> Inr (Some c))
      | Some k \<Rightarrow> Inl (WFException (NoSecurityContext k remote_file)))"

definition cachedFilename_of :: "env \<Rightarrow> wf \<Rightarrow> string \<Rightarrow> path" where
  "cachedFilename_of e self remote_file =
     path_join (cacheWorkflowInputsDir self) (sha1 e remote_file)"

definition prettyFilename_of :: "env \<Rightarrow> string \<Rightarrow> string" where
  "prettyFilename_of e remote_file = last (split_on CHR ''/'' (path (urlparse e remote_file)))"

definition downloadInputFile ::
  "env \<Rightarrow> wf \<Rightarrow> string \<Rightarrow> path option \<Rightarrow> pyval option \<Rightarrow> world
     \<Rightarrow> (error + materialized_content) \<times> world" where
  "downloadInputFile e self remote_file workflowInputs_destdir contextName w =
     (let parsedInputURL = urlparse e remote_file
      in if scheme parsedInputURL = [] \<or> netloc parsedInputURL = [] \<or> path parsedInputURL = []
         then (Inl RuntimeError, w)
         else
           let input_file = sha1 e remote_file;
               prettyFilename = last (split_on CHR ''/'' (path parsedInputURL));
               destdir = (case workflowInputs_destdir of
                            None \<Rightarrow> cacheWorkflowInputsDir self
                          | Some d \<Rightarrow> d)
           in case (if destdir \<notin> paths w then makedirs e destdir w else Inr w) of
                Inl err \<Rightarrow> (Inl err, w)
              | Inr w1 \<Rightarrow>
                  let cachedFilename = path_join (cacheWorkflowInputsDir self) input_file;
                      result = \<lparr>local = cachedFilename, uri = remote_file,
                                prettyFilename = prettyFilename\<rparr>
                  in if cachedFilename \<notin> paths w1
                     then
                       let theScheme = str_lower (scheme parsedInputURL)
                       in case map_of (schemeHandlers self) theScheme of
                            None \<Rightarrow> (Inl (WFException (NoSchemeHandler theScheme remote_file)), w1)
                          | Some schemeHandler \<Rightarrow>
                              (case get_secContext self contextName remote_file of
                                 Inl err \<Rightarrow> (Inl err, w1)
                               | Inr secContext \<Rightarrow>
                                   (case schemeHandler remote_file cachedFilename secContext w1 of
                                      (exn, w2) \<Rightarrow>
                                        let w3 = w2\<lparr>trace := trace w1 @
                                                   [SchemeHandlerCall theScheme remote_file
                                                      cachedFilename secContext]\<rparr>
                                        in (case exn of
                                              Some err \<Rightarrow> (Inl err, w3)
                                            | None \<Rightarrow> (Inr result, w3))))
                     else (Inr result, w1))"

section \<open>Input materialization: \<^verbatim>\<open>WF.fetchInputs\<close>\<close>

text \<open>\<^verbatim>\<open>os.symlink(src, dst)\<close>: raises when \<^verbatim>\<open>dst\<close> exists.\<close>

definition symlink :: "path \<Rightarrow> path \<Rightarrow> world \<Rightarrow> error + world" where
  "symlink src dst w =
     (if dst \<in> paths w then Inl (FileExistsError dst)
      else Inr (w\<lparr>paths := insert dst (paths w)\<rparr>))"

text \<open>\<^verbatim>\<open>downloadInputFile\<close> on the value found under \<^verbatim>\<open>url\<close>: for a value that is not a
  string, \<^verbatim>\<open>urlparse\<close> treats a false one as the empty URL, which is then refused, and
  raises on any other.\<close>

definition downloadInputValue ::
  "env \<Rightarrow> wf \<Rightarrow> pyval \<Rightarrow> path option \<Rightarrow> pyval option \<Rightarrow> world
     \<Rightarrow> (error + materialized_content) \<times> world" where
  "downloadInputValue e self remote_file workflowInputs_destdir contextName w =
     (case remote_file of
        PStr u \<Rightarrow> downloadInputFile e self u workflowInputs_destdir contextName w
      | v \<Rightarrow> if py_truthy v then (Inl AttributeError, w) else (Inl RuntimeError, w))"

text \<open>Lines 340 to 358, the loop over the URLs of one File node. \<open>lastInput\<close> is the counter
  of the walk; it comes in and goes out.\<close>

fun stage_files ::
  "env \<Rightarrow> wf \<Rightarrow> pyval option \<Rightarrow> path option \<Rightarrow> path option \<Rightarrow> pyval list \<Rightarrow> nat \<Rightarrow> world
     \<Rightarrow> (error + materialized_content list \<times> nat) \<times> world" where
  "stage_files e self contextName workflowInputs_destdir workflowInputs_cacheDir [] lastInput w =
     (Inr ([], lastInput), w)"
| "stage_files e self contextName workflowInputs_destdir workflowInputs_cacheDir
     (remote_file # remote_files) lastInput w =
     (case downloadInputValue e self remote_file workflowInputs_cacheDir contextName w of
        (Inl err, w1) \<Rightarrow> (Inl err, w1)
      | (Inr matContent, w1) \<Rightarrow>
          (let lastInput1 = lastInput + 1
           in (case workflowInputs_destdir of
                 None \<Rightarrow> (Inl TypeError, w1)
               | Some destdir \<Rightarrow>
                   (let prettyLocal0 = path_join destdir (prettyFilename matContent);
                        prettyLocal =
                          (if prettyLocal0 \<in> paths w1
                           then path_join destdir
                                  (str_of_nat lastInput1 @ ''_'' @ prettyFilename matContent)
                           else prettyLocal0)
                    in (case symlink (local matContent) prettyLocal w1 of
                          Inl err \<Rightarrow> (Inl err, w1)
                        | Inr w2 \<Rightarrow>
                            (case stage_files e self contextName workflowInputs_destdir
                                    workflowInputs_cacheDir remote_files lastInput1 w2 of
                               (Inl err, w3) \<Rightarrow> (Inl err, w3)
                             | (Inr (remote_pairs, lastInput2), w3) \<Rightarrow>
                                 (Inr (\<lparr>local = prettyLocal, uri = uri matContent,
                                        prettyFilename = prettyFilename matContent\<rparr>
                                       # remote_pairs, lastInput2), w3)))))))"

text \<open>The walk itself, over the items of a dict in their order. The values found come
  back in the order the loop appends them.\<close>

fun fetchInputs ::
  "env \<Rightarrow> wf \<Rightarrow> (string \<times> pyval) list \<Rightarrow> path option \<Rightarrow> path option \<Rightarrow> string \<Rightarrow> nat \<Rightarrow> world
     \<Rightarrow> (error + materialized_input list \<times> nat) \<times> world" where
  "fetchInputs e self [] workflowInputs_destdir workflowInputs_cacheDir prefix lastInput w =
     (Inr ([], lastInput), w)"
| "fetchInputs e self ((key, inputs) # params) workflowInputs_destdir workflowInputs_cacheDir
     prefix lastInput w =
     (let linearKey = prefix @ key
      in case inputs of
           PDict d \<Rightarrow>
             (case dict_get d ''c-l-a-s-s'' of
                Some inputClass \<Rightarrow>
                  if inputClass = PStr ''File''
                  then
                    (case map_of d ''url'' of
                       None \<Rightarrow> (Inl (KeyError ''url''), w)
                     | Some url \<Rightarrow>
                         (let remote_files = (case url of PList l \<Rightarrow> l | v \<Rightarrow> [v])
                          in (case stage_files e self (dict_get d ''security-context'')
                                     workflowInputs_destdir workflowInputs_cacheDir
                                     remote_files lastInput w of
                                (Inl err, w1) \<Rightarrow> (Inl err, w1)
                              | (Inr (remote_pairs, lastInput1), w1) \<Rightarrow>
                                  (case fetchInputs e self params workflowInputs_destdir
                                          workflowInputs_cacheDir prefix lastInput1 w1 of
                                     (Inl err, w2) \<Rightarrow> (Inl err, w2)
                                   | (Inr (theInputs, lastInput2), w2) \<Rightarrow>
                                       (Inr (\<lparr>name = linearKey,
                                              values_of = Inl remote_pairs\<rparr>
                                             # theInputs, lastInput2), w2)))))
                  else (Inl (WFException (UnrecognizedInputClass inputClass)), w)
              | None \<Rightarrow>
                  (case fetchInputs e self d workflowInputs_destdir workflowInputs_cacheDir
                          (linearKey @ ''.'') lastInput w of
                     (Inl err, w1) \<Rightarrow> (Inl err, w1)
                   | (Inr (newInputsAndParams, lastInput1), w1) \<Rightarrow>
                       (case fetchInputs e self params workflowInputs_destdir
                               workflowInputs_cacheDir prefix lastInput1 w1 of
                          (Inl err, w2) \<Rightarrow> (Inl err, w2)
                        | (Inr (theInputs, lastInput2), w2) \<Rightarrow>
                            (Inr (newInputsAndParams @ theInputs, lastInput2), w2))))
         | v \<Rightarrow>
             (case fetchInputs e self params workflowInputs_destdir workflowInputs_cacheDir
                     prefix lastInput w of
                (Inl err, w1) \<Rightarrow> (Inl err, w1)
              | (Inr (theInputs, lastInput1), w1) \<Rightarrow>
                  (Inr (\<lparr>name = linearKey,
                         values_of = Inr (case v of PList l \<Rightarrow> l | x \<Rightarrow> [x])\<rparr>
                        # theInputs, lastInput1), w1)))"

section \<open>The resolver: \<^verbatim>\<open>WF.getWorkflowRepoFromTRS\<close> and \<^verbatim>\<open>WF.getWorkflowRepoFromROCrate\<close>\<close>

text \<open>\<^verbatim>\<open>RECOGNIZED_TRS_DESCRIPTORS\<close> and \<^verbatim>\<open>RECOGNIZED_ROCRATE_PROG_LANG\<close>: dicts built from
  the list of engines. Of two engines with one key the later is kept; the keys come in the
  order of their first occurrence.\<close>

definition RECOGNIZED_TRS_DESCRIPTORS :: "wf \<Rightarrow> string \<Rightarrow> workflow_type option" where
  "RECOGNIZED_TRS_DESCRIPTORS self =
     map_of (rev (map (\<lambda>t. (trs_descriptor t, t)) (WORKFLOW_ENGINES self)))"

definition RECOGNIZED_TRS_DESCRIPTORS_keys :: "wf \<Rightarrow> string list" where
  "RECOGNIZED_TRS_DESCRIPTORS_keys self =
     rev (remdups (rev (map trs_descriptor (WORKFLOW_ENGINES self))))"

definition RECOGNIZED_ROCRATE_PROG_LANG :: "wf \<Rightarrow> string \<Rightarrow> workflow_type option" where
  "RECOGNIZED_ROCRATE_PROG_LANG self =
     map_of (rev (map (\<lambda>t. (engine_uri t, t)) (WORKFLOW_ENGINES self)))"

text \<open>\<^verbatim>\<open>urllib.parse.urlunparse((scheme, netloc, path, '', '', ''))\<close> for a
  \<^verbatim>\<open>netloc\<close> that is not empty, which is how the resolver calls it.\<close>

definition urlunparse :: "string \<Rightarrow> string \<Rightarrow> string \<Rightarrow> string" where
  "urlunparse sch loc pth =
     (if sch = [] then [] else sch @ '':'') @ ''//'' @ loc
     @ (if pth \<noteq> [] \<and> take 1 pth \<noteq> ''/'' then ''/'' @ pth else pth)"

text \<open>Lines 625 to 643: the archive is downloaded unless its cache file exists.\<close>

definition downloadROcrate :: "env \<Rightarrow> wf \<Rightarrow> string \<Rightarrow> world \<Rightarrow> (error + path) \<times> world" where
  "downloadROcrate e self roCrateURL w =
     (let crate_hashed_id = sha1 e roCrateURL;
          cachedFilename = path_join (cacheROCrateDir self) (crate_hashed_id @ ''.crate.zip'')
      in if cachedFilename \<notin> paths w
         then
           let w1 = w\<lparr>trace := trace w @ [UrlOpen roCrateURL]\<rparr>
           in if crate_download_fails e w roCrateURL
              then (Inl (WFException CannotDownloadROCrate), w1)
              else (Inr cachedFilename, w1\<lparr>paths := insert cachedFilename (paths w1)\<rparr>)
         else (Inr cachedFilename, w))"

text \<open>Lines 573 to 578: the identifier of the first entity of type
  \<^verbatim>\<open>ComputerLanguage\<close>; reading it raises when that entity has none.\<close>

fun mainEntityProgrammingLanguageId_of :: "crate_entity list \<Rightarrow> error + string option" where
  "mainEntityProgrammingLanguageId_of [] = Inr None"
| "mainEntityProgrammingLanguageId_of (x # xs) =
     (if entity_type x = ''ComputerLanguage''
      then (case identifier_id x of
              None \<Rightarrow> Inl (KeyError ''identifier'')
            | Some i \<Rightarrow> Inr (Some i))
      else mainEntityProgrammingLanguageId_of xs)"

text \<open>Lines 595 to 618: repository URL, tag and relative path out of the URL the crate is
  based on.\<close>

definition repo_of_wf_url ::
  "env \<Rightarrow> string \<Rightarrow> error + string option \<times> string option \<times> string option" where
  "repo_of_wf_url e wf_url =
     (let parsed_wf_url = urlparse e wf_url
      in if netloc parsed_wf_url = ''github.com''
         then
           let wf_path = split_on CHR ''/'' (path parsed_wf_url)
           in if length wf_path \<ge> 3
              then
                let repoGitPath0 = take 3 wf_path;
                    repoGitPath =
                      (if \<not> endswith (last repoGitPath0) ''.git''
                       then butlast repoGitPath0 @ [last repoGitPath0 @ ''.git'']
                       else repoGitPath0);
                    repoURL = urlunparse (scheme parsed_wf_url) (netloc parsed_wf_url)
                                (join_with ''/'' repoGitPath)
                in if length wf_path \<ge> 5 \<and> wf_path ! 3 = ''blob''
                   then Inr (Some repoURL, Some (wf_path ! 4),
                             if length wf_path \<ge> 6
                             then Some (join_with ''/'' (drop 5 wf_path)) else None)
                   else Inr (Some repoURL, None, None)
              else Inr (None, None, None)
         else Inl (WFException UnableToGuessRepository))"

definition getWorkflowRepoFromROCrate ::
  "env \<Rightarrow> wf \<Rightarrow> string \<Rightarrow> string option \<Rightarrow> world
     \<Rightarrow> (error + workflow_type \<times> string option \<times> string option \<times> string option) \<times> world" where
  "getWorkflowRepoFromROCrate e self roCrateURL expectedProgrammingLanguageId w =
     (case downloadROcrate e self roCrateURL w of
        (Inl err, w1) \<Rightarrow> (Inl err, w1)
      | (Inr roCrateFile, w1) \<Rightarrow>
          (case rocrate_open e roCrateFile w1 of
             Inl err \<Rightarrow> (Inl err, w1)
           | Inr roCrateObj \<Rightarrow>
               (case mainEntityProgrammingLanguageId_of (entities roCrateObj) of
                  Inl err \<Rightarrow> (Inl err, w1)
                | Inr mainEntityProgrammingLanguageId \<Rightarrow>
                    (case (case mainEntityProgrammingLanguageId of
                             None \<Rightarrow> None
                           | Some l \<Rightarrow> RECOGNIZED_ROCRATE_PROG_LANG self l) of
                       None \<Rightarrow>
                         (Inl (WFException
                                 (LanguageNotAcknowledged mainEntityProgrammingLanguageId)), w1)
                     | Some engineDesc \<Rightarrow>
                         (case (case expectedProgrammingLanguageId of
                                  None \<Rightarrow> None
                                | Some x \<Rightarrow>
                                    if mainEntityProgrammingLanguageId \<noteq> Some x
                                    then Some x else None) of
                            Some x \<Rightarrow>
                              (Inl (WFException
                                      (LanguageMismatch x mainEntityProgrammingLanguageId)), w1)
                          | None \<Rightarrow>
                              (case isBasedOn roCrateObj of
                                 None \<Rightarrow> (Inl (KeyError ''isBasedOn''), w1)
                               | Some wf_url \<Rightarrow>
                                   (case repo_of_wf_url e wf_url of
                                      Inl err \<Rightarrow> (Inl err, w1)
                                    | Inr (repoURL, repoTag, repoRelPath) \<Rightarrow>
                                        (Inr (engineDesc, repoURL, repoTag, repoRelPath),
                                         w1))))))))"

text \<open>Lines 502 to 510: the first entry that is a dict and whose id, as a string, is the
  version id asked for.\<close>

fun find_version :: "string \<Rightarrow> tool_version list \<Rightarrow> tool_version option" where
  "find_version v [] = None"
| "find_version v (NotADict # vs) = find_version v vs"
| "find_version v (ToolVersion i dt # vs) =
     (if i = v then Some (ToolVersion i dt) else find_version v vs)"

text \<open>Lines 512 to 517: the loop that keeps the entry with the greatest id met so far;
  \<^verbatim>\<open>.get\<close> raises on an entry that is not a dict.\<close>

fun latest_version ::
  "tool_version list \<Rightarrow> tool_version option \<Rightarrow> string \<Rightarrow> error + tool_version option \<times> string" where
  "latest_version [] toolVersion toolVersionId = Inr (toolVersion, toolVersionId)"
| "latest_version (NotADict # vs) toolVersion toolVersionId = Inl AttributeError"
| "latest_version (ToolVersion i dt # vs) toolVersion toolVersionId =
     (if i \<noteq> [] \<and> toolVersionId < i
      then latest_version vs (Some (ToolVersion i dt)) i
      else latest_version vs toolVersion toolVersionId)"

text \<open>Lines 499 to 522: the version selected and its id.\<close>

definition select_version ::
  "wf \<Rightarrow> tool_version list \<Rightarrow> error + tool_version \<times> string" where
  "select_version self possibleToolVersions =
     (case (case version_id self of
              Some v \<Rightarrow>
                if v \<noteq> []
                then (case find_version v possibleToolVersions of
                        None \<Rightarrow> Inl (WFException VersionNotFound)
                      | Some tv \<Rightarrow> Inr (Some tv, v))
                else latest_version possibleToolVersions None []
            | None \<Rightarrow> latest_version possibleToolVersions None []) of
        Inl err \<Rightarrow> Inl err
      | Inr (None, toolVersionId) \<Rightarrow> Inl (WFException NoValidVersion)
      | Inr (Some toolVersion, toolVersionId) \<Rightarrow> Inr (toolVersion, toolVersionId))"

text \<open>Lines 525 to 549: the descriptor type, out of the one asked for and the ones the
  version lists. Line 542 reads \<^verbatim>\<open>toolVersion['descriptor_type']\<close>, which raises when
  the key is missing.\<close>

definition choose_descriptor_type :: "wf \<Rightarrow> tool_version \<Rightarrow> error + string" where
  "choose_descriptor_type self toolVersion =
     (case toolVersion of
        NotADict \<Rightarrow> Inl AttributeError
      | ToolVersion i DTNotAList \<Rightarrow> Inl (WFException NoValidDescriptorType)
      | ToolVersion i dt \<Rightarrow>
          let toolDescriptorTypes = (case dt of DTList l \<Rightarrow> l | _ \<Rightarrow> [])
          in (case descriptor_type self of
                None \<Rightarrow>
                  (case find (\<lambda>c. c \<in> set toolDescriptorTypes)
                          (RECOGNIZED_TRS_DESCRIPTORS_keys self) of
                     None \<Rightarrow> Inl (WFException NoAcknowledgedDescriptorType)
                   | Some c \<Rightarrow> Inr c)
              | Some chosenDescriptorType \<Rightarrow>
                  if dt = DTAbsent then Inl (KeyError ''descriptor_type'')
                  else if chosenDescriptorType \<notin> set toolDescriptorTypes
                  then Inl (WFException (DescriptorTypeNotAvailable chosenDescriptorType))
                  else if RECOGNIZED_TRS_DESCRIPTORS self chosenDescriptorType = None
                  then Inl (WFException (DescriptorTypeNotAcknowledged chosenDescriptorType))
                  else Inr chosenDescriptorType))"

definition trs_tool_url_of :: "env \<Rightarrow> wf \<Rightarrow> string" where
  "trs_tool_url_of e self = urljoin e (trs_endpoint self) (quote e (wf_id self))"

definition getWorkflowRepoFromTRS ::
  "env \<Rightarrow> wf \<Rightarrow> world
     \<Rightarrow> (error + workflow_type \<times> string option \<times> string option \<times> string option) \<times> world" where
  "getWorkflowRepoFromTRS e self w =
     (let trs_tool_url = trs_tool_url_of e self;
          w1 = w\<lparr>trace := trace w @ [UrlOpen trs_tool_url]\<rparr>
      in case trs_get e trs_tool_url w of
           Inl err \<Rightarrow> (Inl err, w1)
         | Inr toolDesc \<Rightarrow>
             if toolclass_name toolDesc \<noteq> ''Workflow''
             then (Inl (WFException NotLabelledAsWorkflow), w1)
             else if versions toolDesc = [] then (Inl (WFException VersionNotFound), w1)
             else
               (case select_version self (versions toolDesc) of
                  Inl err \<Rightarrow> (Inl err, w1)
                | Inr (toolVersion, toolVersionId) \<Rightarrow>
                    (case choose_descriptor_type self toolVersion of
                       Inl err \<Rightarrow> (Inl err, w1)
                     | Inr chosenDescriptorType \<Rightarrow>
                         let roCrateURL = trs_tool_url @ ''/versions/'' @ quote e toolVersionId
                               @ ''/'' @ quote e chosenDescriptorType @ ''/files?''
                               @ ''format=zip''
                         in (case RECOGNIZED_TRS_DESCRIPTORS self chosenDescriptorType of
                               None \<Rightarrow> (Inl (KeyError chosenDescriptorType), w1)
                             | Some t \<Rightarrow>
                                 getWorkflowRepoFromROCrate e self roCrateURL
                                   (Some (engine_uri t)) w1))))"

section \<open>Container images: \<^verbatim>\<open>DockerContainerFactory.materializeContainers\<close>\<close>

definition DOCKER_PROTO :: string where
  "DOCKER_PROTO = ''docker://''"

text \<open>Subscripts and \<^verbatim>\<open>len\<close> on decoded values, with the exceptions Python raises.
  The first character of a string is its first byte and the continuation bytes after
  it.\<close>

definition py_getitem :: "pyval \<Rightarrow> string \<Rightarrow> error + pyval" where
  "py_getitem v k =
     (case v of
        PDict d \<Rightarrow> (case map_of d k of None \<Rightarrow> Inl (KeyError k) | Some x \<Rightarrow> Inr x)
      | _ \<Rightarrow> Inl TypeError)"

definition is_continuation :: "char \<Rightarrow> bool" where
  "is_continuation c = (let n = (of_char c :: nat) in 128 \<le> n \<and> n < 192)"

definition py_first :: "pyval \<Rightarrow> error + pyval" where
  "py_first v =
     (case v of
        PList [] \<Rightarrow> Inl IndexError
      | PList (x # xs) \<Rightarrow> Inr x
      | PStr [] \<Rightarrow> Inl IndexError
      | PStr (c # cs) \<Rightarrow> Inr (PStr (c # takeWhile is_continuation cs))
      | PDict d \<Rightarrow> Inl (KeyError ''0'')
      | _ \<Rightarrow> Inl TypeError)"

definition py_nonempty :: "pyval \<Rightarrow> error + bool" where
  "py_nonempty v =
     (case v of
        PList l \<Rightarrow> Inr (l \<noteq> [])
      | PStr s \<Rightarrow> Inr (s \<noteq> [])
      | PDict d \<Rightarrow> Inr (d \<noteq> [])
      | _ \<Rightarrow> Inl TypeError)"

definition strip_docker_proto :: "string \<Rightarrow> string" where
  "strip_docker_proto tag =
     (if startswith tag DOCKER_PROTO then drop (length DOCKER_PROTO) tag else tag)"

definition run_inspect :: "env \<Rightarrow> string \<Rightarrow> world \<Rightarrow> (int \<times> string \<times> string) \<times> world" where
  "run_inspect e dockerTag w =
     (case docker_inspect e dockerTag w of
        (r, w') \<Rightarrow> (r, w'\<lparr>trace := trace w @ [DockerInspect dockerTag]\<rparr>))"

definition run_pull :: "env \<Rightarrow> string \<Rightarrow> world \<Rightarrow> (int \<times> string \<times> string) \<times> world" where
  "run_pull e dockerTag w =
     (case docker_pull e dockerTag w of
        (r, w') \<Rightarrow> (r, w'\<lparr>trace := trace w @ [DockerPull dockerTag]\<rparr>))"

text \<open>Lines 98 to 119: inspect; on failure pull, and inspect again when the pull went
  well. The value is the standard output of the last command, or the exception.\<close>

definition inspect_or_pull :: "env \<Rightarrow> string \<Rightarrow> world \<Rightarrow> (error + string) \<times> world" where
  "inspect_or_pull e dockerTag w =
     (case run_inspect e dockerTag w of
        ((d_retval, d_out_v, d_err_v), w1) \<Rightarrow>
          (case (if d_retval \<noteq> 0
                 then (case run_pull e dockerTag w1 of
                         ((p_retval, p_out_v, p_err_v), w2) \<Rightarrow>
                           if p_retval = 0 then run_inspect e dockerTag w2
                           else ((p_retval, p_out_v, p_err_v), w2))
                 else ((d_retval, d_out_v, d_err_v), w1)) of
             ((retval, out_v, err_v), w3) \<Rightarrow>
               if retval \<noteq> 0 then (Inl (CouldNotMaterializeImage dockerTag retval), w3)
               else (Inr out_v, w3)))"

text \<open>Lines 122 to 126: the first manifest of the output; every exception there becomes a
  \<^verbatim>\<open>ContainerFactoryException\<close>.\<close>

definition first_manifest :: "env \<Rightarrow> string \<Rightarrow> string \<Rightarrow> error + pyval" where
  "first_manifest e tag d_out_v =
     (case json_loads e d_out_v of
        None \<Rightarrow> Inl (DockerDidNotMaterialize tag)
      | Some manifests \<Rightarrow>
          (case py_first manifests of
             Inl err \<Rightarrow> Inl (DockerDidNotMaterialize tag)
           | Inr manifest \<Rightarrow> Inr manifest))"

text \<open>Lines 129 to 142: the container of a manifest.\<close>

definition container_of_manifest :: "string \<Rightarrow> string \<Rightarrow> pyval \<Rightarrow> error + container" where
  "container_of_manifest tag dockerTag manifest =
     (case py_getitem manifest ''Id'' of
        Inl err \<Rightarrow> Inl err
      | Inr tagId \<Rightarrow>
          (case py_getitem manifest ''RepoDigests'' of
             Inl err \<Rightarrow> Inl err
           | Inr digests \<Rightarrow>
               (case py_nonempty digests of
                  Inl err \<Rightarrow> Inl err
                | Inr nonempty \<Rightarrow>
                    (case (if nonempty
                           then (case py_first digests of
                                   Inl err \<Rightarrow> Inl err
                                 | Inr d \<Rightarrow> Inr (Some d))
                           else Inr None) of
                       Inl err \<Rightarrow> Inl err
                     | Inr fp \<Rightarrow>
                         Inr \<lparr>origTaggedName = tag, taggedName = dockerTag,
                              signature = tagId, fingerprint = fp, ctype = Docker\<rparr>))))"

fun materializeContainers ::
  "env \<Rightarrow> string list \<Rightarrow> world \<Rightarrow> (error + container list) \<times> world" where
  "materializeContainers e [] w = (Inr [], w)"
| "materializeContainers e (tag # tagList) w =
     (let dockerTag = strip_docker_proto tag
      in case inspect_or_pull e dockerTag w of
           (Inl err, w1) \<Rightarrow> (Inl err, w1)
         | (Inr d_out_v, w1) \<Rightarrow>
             (case first_manifest e tag d_out_v of
                Inl err \<Rightarrow> (Inl err, w1)
              | Inr manifest \<Rightarrow>
                  (case container_of_manifest tag dockerTag manifest of
                     Inl err \<Rightarrow> (Inl err, w1)
                   | Inr c \<Rightarrow>
                       (case materializeContainers e tagList w1 of
                          (Inl err, w2) \<Rightarrow> (Inl err, w2)
                        | (Inr containersList, w2) \<Rightarrow> (Inr (c # containersList), w2)))))"

section \<open>A concrete run\<close>

text \<open>An environment, an instance and a world on which the definitions compute: a git that
  clones and checks out, a registry with one tool, a docker with one image.\<close>

definition handler0 :: handler where
  "handler0 remote_file cachedFilename secContext w =
     (None, w\<lparr>paths := insert cachedFilename (paths w)\<rparr>)"

definition cwl_type :: workflow_type where
  "cwl_type = \<lparr>engineName = ''cwl'', engine_uri = ''https://w3id.org/cwl/v1.0/'',
               trs_descriptor = ''CWL''\<rparr>"

definition tool0 :: tool_desc where
  "tool0 = \<lparr>toolclass_name = ''Workflow'',
            versions = [ToolVersion ''1'' (DTList [''CWL'']),
                        ToolVersion ''3'' (DTList [''CWL'', ''GALAXY'']),
                        ToolVersion ''2'' (DTList [''CWL''])]\<rparr>"

definition urlparse0 :: "string \<Rightarrow> parsed_url" where
  "urlparse0 u =
     (if startswith u ''https://''
      then (let r = drop 8 u; h = takeWhile (\<lambda>c. c \<noteq> CHR ''/'') r
            in \<lparr>scheme = ''https'', netloc = h, path = drop (length h) r\<rparr>)
      else \<lparr>scheme = [], netloc = [], path = u\<rparr>)"

definition manifest0 :: pyval where
  "manifest0 = PDict [(''Id'', PStr ''sha256:aa''),
                      (''RepoDigests'', PList [PStr ''busybox@sha256:bb''])]"

definition env0 :: env where
  "env0 = \<lparr> sha1 = (\<lambda>s. ''sha1-'' @ s),
            urlparse = urlparse0,
            quote = (\<lambda>s. s),
            urljoin = (\<lambda>b r. b @ r),
            json_loads = (\<lambda>s. if s = ''[m0]'' then Some (PList [manifest0]) else None),
            makedirs_fails = (\<lambda>w p. False),
            git = (\<lambda>cmd w. case cmd of
                     GitClone nc u d \<Rightarrow>
                       (0, w\<lparr>paths := insert d (paths w), heads := (heads w)(d := ''main0'')\<rparr>)
                   | GitCheckout t d \<Rightarrow>
                       (0, w\<lparr>heads := (heads w)(d := t @ ''-commit'' @ [CHR 0x0A])\<rparr>)
                   | _ \<Rightarrow> (0, w)),
            trs_get = (\<lambda>u w. Inr tool0),
            crate_download_fails = (\<lambda>w u. False),
            rocrate_open = (\<lambda>p w. Inr \<lparr>entities = [\<lparr>entity_type = ''ComputerLanguage'',
                                                      identifier_id = Some ''https://w3id.org/cwl/v1.0/''\<rparr>],
                                        isBasedOn = Some ''https://github.com/owner/repo/blob/main/wf/main.cwl''\<rparr>),
            docker_inspect = (\<lambda>t w. if t = ''busybox:1'' then ((0, ''[m0]'', []), w)
                                     else ((1, [], ''no such image''), w)),
            docker_pull = (\<lambda>t w. ((1, [], ''not found''), w)) \<rparr>"

definition wf0 :: wf where
  "wf0 = \<lparr> WORKFLOW_ENGINES = [cwl_type],
           wf_id = ''42'', version_id = Some ''1'', descriptor_type = None,
           trs_endpoint = ''https://trs.example.org/tools/'', creds_config = [],
           cacheWorkflowDir = ''/c/wf-cache'', cacheROCrateDir = ''/c/ro-crate-cache'',
           cacheWorkflowInputsDir = ''/c/wf-inputs'',
           schemeHandlers = [(''http'', handler0), (''https'', handler0), (''ftp'', handler0)] \<rparr>"

definition world0 :: world where
  "world0 = \<lparr> paths = {}, heads = (\<lambda>d. []), trace = [] \<rparr>"

definition world_cached :: world where
  "world_cached = \<lparr> paths = {''/c/wf-inputs'', ''/c/wf-inputs/sha1-https://h/data''},
                     heads = (\<lambda>d. []), trace = [] \<rparr>"

text \<open>The definitions to unfold when a concrete run is computed.\<close>

lemmas run0_defs = env0_def wf0_def world0_def urlparse0_def startswith_def endswith_def
  path_join_def makedirs_def str_lower_def lower_char_def handler0_def get_secContext_def
  dict_get_def symlink_def downloadInputValue_def Let_def

text \<open>The walk reaches a mapping node whose class is given and is not \<^verbatim>\<open>File\<close>: the walk
  descends exactly into the dict values that carry no class.\<close>

fun reaches_unrecognized :: "(string \<times> pyval) list \<Rightarrow> bool" where
  "reaches_unrecognized [] = False"
| "reaches_unrecognized ((key, inputs) # params) =
     (case inputs of
        PDict d \<Rightarrow>
          (case dict_get d ''c-l-a-s-s'' of
             Some inputClass \<Rightarrow> inputClass \<noteq> PStr ''File'' \<or> reaches_unrecognized params
           | None \<Rightarrow> reaches_unrecognized d \<or> reaches_unrecognized params)
      | _ \<Rightarrow> reaches_unrecognized params)"

text \<open>The number of files among the materialized inputs.\<close>

definition count_files :: "materialized_input list \<Rightarrow> nat" where
  "count_files ins =
     sum_list (map (\<lambda>i. case values_of i of Inl l \<Rightarrow> length l | Inr _ \<Rightarrow> 0) ins)"

text \<open>An instance that asks for a descriptor type no engine of the backend has, and an
  environment whose crate is based on a URL with an owner and no repository.\<close>

definition wf_galaxy :: wf where
  "wf_galaxy = wf0\<lparr>version_id := Some ''3'', descriptor_type := Some ''GALAXY''\<rparr>"

definition env_short :: env where
  "env_short = env0\<lparr>rocrate_open :=
     (\<lambda>p w. Inr \<lparr>entities = [\<lparr>entity_type = ''ComputerLanguage'',
                                identifier_id = Some ''https://w3id.org/cwl/v1.0/''\<rparr>],
                  isBasedOn = Some ''https://github.com/owner''\<rparr>)\<rparr>"

text \<open>
  What is claimed of the container made for a tag: the tag as given, the tag without a leading
  \<^verbatim>\<open>docker://\<close>, and signature and fingerprint read from the first manifest that a
  successful \<^verbatim>\<open>docker inspect\<close> of the stripped tag printed: the signature its \<^verbatim>\<open>Id\<close>, the
  fingerprint the first of its \<^verbatim>\<open>RepoDigests\<close>, or \<^verbatim>\<open>None\<close> when there are none.
\<close>

definition is_container_of :: "env \<Rightarrow> string \<Rightarrow> container \<Rightarrow> bool" where
  "is_container_of e tag c =
     (origTaggedName c = tag
      \<and> taggedName c = (if take 9 tag = ''docker://'' then drop 9 tag else tag)
      \<and> ctype c = Docker
      \<and> (\<exists>u u' d_out_v d_err_v manifest.
            docker_inspect e (taggedName c) u = ((0, d_out_v, d_err_v), u')
            \<and> first_manifest e tag d_out_v = Inr manifest
            \<and> py_getitem manifest ''Id'' = Inr (signature c)
            \<and> (\<exists>digests. py_getitem manifest ''RepoDigests'' = Inr digests
                  \<and> ((py_nonempty digests = Inr False \<and> fingerprint c = None)
                      \<or> (py_nonempty digests = Inr True
                          \<and> (\<exists>f. py_first digests = Inr f \<and> fingerprint c = Some f))))))"

section \<open>The repository cache is idempotent\<close>

lemma run_git_in_Inr:
  "run_git_in e cmd d w = (Inr rv, w') \<Longrightarrow>
     d \<in> paths w \<and> (\<exists>u. git e cmd w = (rv, u) \<and> w' = u\<lparr>trace := trace w @ [cmd]\<rparr>)"
  by (auto simp: run_git_in_def run_git_def split: if_splits prod.splits)

lemma git_materialize_keeps:
  assumes "git_keeps e p" "git_materialize e url tag d w = (Inr 0, w')" "p \<in> paths w"
  shows "p \<in> paths w'"
  using assms
  unfolding git_materialize_def git_keeps_def run_git_def
  by (auto split: prod.splits option.splits if_splits sum.splits dest!: run_git_in_Inr)

lemma git_rev_parse_Inr:
  "git_rev_parse d w = (Inr r, w') \<Longrightarrow>
     d \<in> paths w \<and> r = rstrip (heads w d) \<and> w' = w\<lparr>trace := trace w @ [GitRevParse d]\<rparr>"
  by (auto simp: git_rev_parse_def split: if_splits)

text \<open>A cache hit: both directories exist, so nothing but \<^verbatim>\<open>rev-parse\<close> runs.\<close>

lemma doMaterializeRepo_hit:
  assumes "repo_destdir_of e self url \<in> paths w"
      and "repo_tag_destdir_of e self url tag \<in> paths w"
  shows "doMaterializeRepo e self url tag w =
           (Inr (repo_tag_destdir_of e self url tag,
                 rstrip (heads w (repo_tag_destdir_of e self url tag))),
            w\<lparr>trace := trace w @ [GitRevParse (repo_tag_destdir_of e self url tag)]\<rparr>)"
  using assms by (simp add: doMaterializeRepo_def git_rev_parse_def Let_def)

text \<open>After a call that returned, both directories exist and the revision returned is the
  one \<^verbatim>\<open>rev-parse\<close> reads in the slot.\<close>

lemma doMaterializeRepo_Inr:
  assumes "git_keeps e (repo_destdir_of e self url)"
      and "doMaterializeRepo e self url tag w = (Inr (d, r), w1)"
  shows "repo_destdir_of e self url \<in> paths w1 \<and> repo_tag_destdir_of e self url tag \<in> paths w1
         \<and> d = repo_tag_destdir_of e self url tag \<and> r = rstrip (heads w1 d)"
proof -
  let ?p = "repo_destdir_of e self url" and ?s = "repo_tag_destdir_of e self url tag"
  obtain wa where wa: "(if ?p \<notin> paths w then makedirs e ?p w else Inr w) = Inr wa"
    using assms(2) by (auto simp: doMaterializeRepo_def Let_def split: sum.splits)
  then have pa: "?p \<in> paths wa"
    by (auto simp: makedirs_def split: if_splits)
  obtain wb where
        wb: "(if ?s \<notin> paths wa then git_materialize e url tag ?s wa else (Inr 0, wa)) = (Inr 0, wb)"
    and rp: "git_rev_parse ?s wb = (Inr r, w1)" and d: "d = ?s"
    using assms(2) wa
    by (auto simp: doMaterializeRepo_def Let_def split: sum.splits prod.splits if_splits)
  have pb: "?p \<in> paths wb"
    using wb pa git_materialize_keeps[OF assms(1)] by (auto split: if_splits)
  from git_rev_parse_Inr[OF rp] pb d show ?thesis by auto
qed

lemma git_keeps_env0: "git_keeps env0 d"
  by (auto simp: git_keeps_def env0_def split: action.splits)

lemma doMaterializeRepo_first0:
  "fst (doMaterializeRepo env0 wf0 ''https://g/r'' (Some ''v1'') world0)
     = Inr (''/c/wf-cache/sha1-https://g/r/sha1-v1'', ''v1-commit'')"
  by (simp add: doMaterializeRepo_def env0_def wf0_def world0_def repo_destdir_of_def
        repo_tag_destdir_of_def path_join_def makedirs_def git_materialize_def run_git_def
        run_git_in_def git_rev_parse_def rstrip_def py_isspace_def Let_def)

text \<open>
  Claim C1. Whenever \<^verbatim>\<open>doMaterializeRepo\<close> has returned for a URL and a revision, a second
  call with the same arguments, made in the world the first call left, returns the same
  directory and the same effective revision, leaves the file system as it is and runs
  exactly one external command, \<^verbatim>\<open>rev-parse\<close> in the slot directory
  \<^verbatim>\<open>cacheWorkflowDir/sha1(url)/sha1(revision or empty)\<close>: no clone, no checkout, no
  submodule update. What is asked of git is that a command that succeeds does not remove
  the directory \<^verbatim>\<open>cacheWorkflowDir/sha1(url)\<close>.
\<close>

theorem doMaterializeRepo_idempotent:
  assumes "git_keeps e (repo_destdir_of e self url)"
      and "doMaterializeRepo e self url tag w = (Inr (d, r), w1)"
  shows "doMaterializeRepo e self url tag w1 =
           (Inr (d, r),
            w1\<lparr>trace := trace w1 @ [GitRevParse (repo_tag_destdir_of e self url tag)]\<rparr>)"
  using doMaterializeRepo_Inr[OF assms] doMaterializeRepo_hit[of e self url w1 tag] by simp

theorem doMaterializeRepo_idempotent_witness:
  "git_keeps env0 (repo_destdir_of env0 wf0 ''https://g/r'')
   \<and> fst (doMaterializeRepo env0 wf0 ''https://g/r'' (Some ''v1'') world0)
       = Inr (''/c/wf-cache/sha1-https://g/r/sha1-v1'', ''v1-commit'')
   \<and> doMaterializeRepo env0 wf0 ''https://g/r'' (Some ''v1'')
         (snd (doMaterializeRepo env0 wf0 ''https://g/r'' (Some ''v1'') world0))
       = (Inr (''/c/wf-cache/sha1-https://g/r/sha1-v1'', ''v1-commit''),
          (snd (doMaterializeRepo env0 wf0 ''https://g/r'' (Some ''v1'') world0))
            \<lparr>trace := trace (snd (doMaterializeRepo env0 wf0 ''https://g/r'' (Some ''v1'') world0))
                       @ [GitRevParse (repo_tag_destdir_of env0 wf0 ''https://g/r'' (Some ''v1''))]\<rparr>)"
proof -
  let ?c = "doMaterializeRepo env0 wf0 ''https://g/r'' (Some ''v1'') world0"
  have first: "?c = (Inr (''/c/wf-cache/sha1-https://g/r/sha1-v1'', ''v1-commit''), snd ?c)"
    using doMaterializeRepo_first0 by (simp add: prod_eq_iff)
  show ?thesis
    using doMaterializeRepo_idempotent[OF git_keeps_env0 first] git_keeps_env0
          doMaterializeRepo_first0
    by simp
qed

section \<open>The input cache\<close>

text \<open>A call that returns yields the cache path, the URI and the last segment of the path
  of the URI, and the URI had a scheme, a host and a path.\<close>

lemma downloadInputFile_Inr:
  assumes "downloadInputFile e self u d c w = (Inr mc, w')"
  shows "mc = \<lparr>local = cachedFilename_of e self u, uri = u,
               prettyFilename = prettyFilename_of e u\<rparr>
         \<and> scheme (urlparse e u) \<noteq> [] \<and> netloc (urlparse e u) \<noteq> []
         \<and> path (urlparse e u) \<noteq> []"
  using assms
  by (auto simp: downloadInputFile_def Let_def cachedFilename_of_def prettyFilename_of_def
           split: if_splits sum.splits option.splits prod.splits)

lemma downloadInputFile_hit:
  assumes "scheme (urlparse e u) \<noteq> []" "netloc (urlparse e u) \<noteq> []"
      and "path (urlparse e u) \<noteq> []"
      and "cachedFilename_of e self u \<in> paths w"
      and "(case d of None \<Rightarrow> cacheWorkflowInputsDir self | Some x \<Rightarrow> x) \<in> paths w
           \<or> \<not> makedirs_fails e w (case d of None \<Rightarrow> cacheWorkflowInputsDir self | Some x \<Rightarrow> x)"
  shows "downloadInputFile e self u d c w =
           (Inr \<lparr>local = cachedFilename_of e self u, uri = u,
                 prettyFilename = prettyFilename_of e u\<rparr>,
            w\<lparr>paths := insert (case d of None \<Rightarrow> cacheWorkflowInputsDir self | Some x \<Rightarrow> x)
                          (paths w)\<rparr>)"
  using assms
  by (auto simp: downloadInputFile_def Let_def cachedFilename_of_def prettyFilename_of_def
                 makedirs_def insert_absorb
           split: if_splits sum.splits option.splits prod.splits)

lemma downloadInputFile_trace:
  assumes "downloadInputFile e self u d c w = (r, w')"
  shows "trace w' = trace w
         \<or> (\<exists>s x. trace w' = trace w @ [SchemeHandlerCall s u (cachedFilename_of e self u) x])"
  using assms
  by (auto simp: downloadInputFile_def Let_def cachedFilename_of_def makedirs_def
           split: if_splits sum.splits option.splits prod.splits)

lemma downloadInputFile_first0:
  "fst (downloadInputFile env0 wf0 ''https://h/data'' None None world0)
     = Inr \<lparr>local = ''/c/wf-inputs/sha1-https://h/data'', uri = ''https://h/data'',
            prettyFilename = ''data''\<rparr>"
  by (simp add: downloadInputFile_def run0_defs)

lemma downloadInputFile_first0_paths:
  "paths (snd (downloadInputFile env0 wf0 ''https://h/data'' None None world0))
     = {''/c/wf-inputs/sha1-https://h/data'', ''/c/wf-inputs''}"
  by (simp add: downloadInputFile_def run0_defs)

lemma downloadInputFile_first0_trace:
  "trace (snd (downloadInputFile env0 wf0 ''https://h/data'' None None world0))
     = [SchemeHandlerCall ''https'' ''https://h/data'' ''/c/wf-inputs/sha1-https://h/data'' None]"
  by (simp add: downloadInputFile_def run0_defs)

text \<open>
  Claim C4. Let a URI have been materialized by \<^verbatim>\<open>downloadInputFile\<close> before (some call
  for it returned), and let its cache file, \<^verbatim>\<open>cacheWorkflowInputsDir/sha1(uri)\<close>, exist.
  Then a call for the same URI, with any destination directory that exists or can be
  created and any context name, returns the same \<^verbatim>\<open>MaterializedContent\<close>: the cache
  path, the URI as given, the last segment of the path of the URI. The world it leaves
  differs from the one it found by the destination directory at most: the trace is the
  same, so no scheme handler and no other external command was run.
\<close>

theorem downloadInputFile_cache_hit:
  assumes "downloadInputFile e self u d0 c0 w0 = (Inr mc0, w0')"
      and "cachedFilename_of e self u \<in> paths w"
      and "(case d of None \<Rightarrow> cacheWorkflowInputsDir self | Some x \<Rightarrow> x) \<in> paths w
           \<or> \<not> makedirs_fails e w (case d of None \<Rightarrow> cacheWorkflowInputsDir self | Some x \<Rightarrow> x)"
  shows "downloadInputFile e self u d c w =
           (Inr mc0,
            w\<lparr>paths := insert (case d of None \<Rightarrow> cacheWorkflowInputsDir self | Some x \<Rightarrow> x)
                          (paths w)\<rparr>)
         \<and> mc0 = \<lparr>local = path_join (cacheWorkflowInputsDir self) (sha1 e u), uri = u,
                   prettyFilename = last (split_on CHR ''/'' (path (urlparse e u)))\<rparr>"
  using downloadInputFile_Inr[OF assms(1)] downloadInputFile_hit[OF _ _ _ assms(2,3), of c]
  by (simp add: cachedFilename_of_def prettyFilename_of_def)

theorem downloadInputFile_cache_hit_witness:
  "downloadInputFile env0 wf0 ''https://h/data'' (Some ''/elsewhere'') (Some (PStr ''nope''))
      (snd (downloadInputFile env0 wf0 ''https://h/data'' None None world0))
     = (Inr \<lparr>local = ''/c/wf-inputs/sha1-https://h/data'', uri = ''https://h/data'',
             prettyFilename = ''data''\<rparr>,
        (snd (downloadInputFile env0 wf0 ''https://h/data'' None None world0))
          \<lparr>paths := {''/elsewhere'', ''/c/wf-inputs/sha1-https://h/data'', ''/c/wf-inputs''}\<rparr>)"
proof -
  let ?c = "downloadInputFile env0 wf0 ''https://h/data'' None None world0"
  have first: "?c = (Inr \<lparr>local = ''/c/wf-inputs/sha1-https://h/data'', uri = ''https://h/data'',
                          prettyFilename = ''data''\<rparr>, snd ?c)"
    using downloadInputFile_first0 by (simp add: prod_eq_iff)
  have "cachedFilename_of env0 wf0 ''https://h/data'' = ''/c/wf-inputs/sha1-https://h/data''"
    by (simp add: cachedFilename_of_def run0_defs)
  then have cached: "cachedFilename_of env0 wf0 ''https://h/data'' \<in> paths (snd ?c)"
    by (simp add: downloadInputFile_first0_paths)
  have dest: "(case Some ''/elsewhere'' of None \<Rightarrow> cacheWorkflowInputsDir wf0 | Some x \<Rightarrow> x)
                \<in> paths (snd ?c)
              \<or> \<not> makedirs_fails env0 (snd ?c)
                    (case Some ''/elsewhere'' of None \<Rightarrow> cacheWorkflowInputsDir wf0 | Some x \<Rightarrow> x)"
    by (simp add: env0_def)
  show ?thesis
    using downloadInputFile_cache_hit[OF first cached dest, of "Some (PStr ''nope'')"]
    by (simp add: downloadInputFile_first0_paths)
qed

text \<open>
  Claim C9. Whatever the destination directory given, the path that \<^verbatim>\<open>downloadInputFile\<close>
  returns as \<^verbatim>\<open>local\<close> is \<^verbatim>\<open>os.path.join(cacheWorkflowInputsDir, sha1(uri))\<close>; when a
  scheme handler is run, it is run once and told to write to that very path; and any two
  calls for one URI that return, with whatever destination directories, context names and
  worlds, return the same local path.
\<close>

theorem downloadInputFile_local_in_cache:
  assumes "downloadInputFile e self u d c w = (Inr mc, w')"
  shows "local mc = path_join (cacheWorkflowInputsDir self) (sha1 e u)
         \<and> (trace w' = trace w
            \<or> (\<exists>s x. trace w' = trace w @
                  [SchemeHandlerCall s u (path_join (cacheWorkflowInputsDir self) (sha1 e u)) x]))
         \<and> (\<forall>d2 c2 w2 mc2 w2'.
               downloadInputFile e self u d2 c2 w2 = (Inr mc2, w2') \<longrightarrow> local mc2 = local mc)"
  using downloadInputFile_Inr[OF assms] downloadInputFile_trace[OF assms] downloadInputFile_Inr
  by (auto simp: cachedFilename_of_def)

theorem downloadInputFile_local_in_cache_witness:
  "local (projr (fst (downloadInputFile env0 wf0 ''https://h/data'' None None world0)))
     = ''/c/wf-inputs/sha1-https://h/data''
   \<and> trace (snd (downloadInputFile env0 wf0 ''https://h/data'' None None world0))
     = [SchemeHandlerCall ''https'' ''https://h/data'' ''/c/wf-inputs/sha1-https://h/data'' None]
   \<and> local (projr (fst (downloadInputFile env0 wf0 ''https://h/data'' (Some ''/elsewhere'') None
                          world_cached)))
     = local (projr (fst (downloadInputFile env0 wf0 ''https://h/data'' None None world0)))"
proof -
  let ?c = "downloadInputFile env0 wf0 ''https://h/data'' None None world0"
  let ?c2 = "downloadInputFile env0 wf0 ''https://h/data'' (Some ''/elsewhere'') None world_cached"
  let ?mc = "\<lparr>local = ''/c/wf-inputs/sha1-https://h/data'', uri = ''https://h/data'',
              prettyFilename = ''data''\<rparr>"
  have first: "?c = (Inr ?mc, snd ?c)"
    using downloadInputFile_first0 by (simp add: prod_eq_iff)
  have second: "?c2 = (Inr ?mc, snd ?c2)"
    by (simp add: downloadInputFile_def run0_defs world_cached_def)
  from downloadInputFile_local_in_cache[OF first] second
  have "local (projr (fst ?c2)) = local ?mc"
    by (metis fst_conv sum.sel(2))
  then show ?thesis
    using downloadInputFile_first0 downloadInputFile_first0_trace by simp
qed

section \<open>The walk over the parameter tree\<close>

text \<open>What a walk that returns has done at its first item, by the kind of the item.\<close>

lemma fetchInputs_scalar:
  assumes "\<And>d. inputs \<noteq> PDict d"
      and "fetchInputs e self ((key, inputs) # params) dd cd prefix n w = (Inr (ins, n'), w')"
  shows "\<exists>ins2. fetchInputs e self params dd cd prefix n w = (Inr (ins2, n'), w')
           \<and> ins = \<lparr>name = prefix @ key,
                      values_of = Inr (case inputs of PList l \<Rightarrow> l | x \<Rightarrow> [x])\<rparr> # ins2"
  using assms by (cases inputs) (auto split: prod.splits sum.splits)

lemma fetchInputs_nested:
  assumes "dict_get d ''c-l-a-s-s'' = None"
      and "fetchInputs e self ((key, PDict d) # params) dd cd prefix n w = (Inr (ins, n'), w')"
  shows "\<exists>ins1 n1 w1 ins2.
           fetchInputs e self d dd cd ((prefix @ key) @ ''.'') n w = (Inr (ins1, n1), w1)
           \<and> fetchInputs e self params dd cd prefix n1 w1 = (Inr (ins2, n'), w')
           \<and> ins = ins1 @ ins2"
  using assms by (auto split: prod.splits sum.splits)

lemma fetchInputs_file:
  assumes "dict_get d ''c-l-a-s-s'' = Some c"
      and "fetchInputs e self ((key, PDict d) # params) dd cd prefix n w = (Inr (ins, n'), w')"
  shows "c = PStr ''File'' \<and> (\<exists>url pairs n1 w1 ins2.
           map_of d ''url'' = Some url
           \<and> stage_files e self (dict_get d ''security-context'') dd cd
                (case url of PList l \<Rightarrow> l | v \<Rightarrow> [v]) n w = (Inr (pairs, n1), w1)
           \<and> fetchInputs e self params dd cd prefix n1 w1 = (Inr (ins2, n'), w')
           \<and> ins = \<lparr>name = prefix @ key, values_of = Inl pairs\<rparr> # ins2)"
  using assms by (auto simp: Let_def split: prod.splits sum.splits option.splits if_splits)

text \<open>The counter grows by one for each URL of a File node.\<close>

lemma stage_files_count:
  "stage_files e self ctx dd cd us n w = (Inr (pairs, n'), w') \<Longrightarrow>
     length pairs = length us \<and> n' = n + length us"
proof (induction us arbitrary: n w pairs n' w')
  case Nil
  then show ?case by simp
next
  case (Cons a us)
  from Cons.prems obtain w2 ps p where
    rest: "stage_files e self ctx dd cd us (Suc n) w2 = (Inr (ps, n'), w')" and "pairs = p # ps"
    by (auto simp: Let_def split: prod.splits sum.splits option.splits)
  with Cons.IH[OF rest] show ?case by simp
qed

text \<open>
  A walk that returns has reached no node of an unrecognized class, and the counter it
  returns is the counter it was given plus the number of files it staged, in the whole
  tree: the counter is threaded through the nesting levels and never set back.
\<close>

lemma fetchInputs_props:
  "fetchInputs e self ps dd cd prefix n w = (Inr (ins, n'), w') \<Longrightarrow>
     \<not> reaches_unrecognized ps \<and> n' = n + count_files ins"
proof (induction "size_list (size_prod (\<lambda>_. 0) size) ps" arbitrary: ps prefix n w ins n' w'
         rule: less_induct)
  case less
  show ?case
  proof (cases ps)
    case Nil
    with less.prems show ?thesis by (simp add: count_files_def)
  next
    case (Cons kv params)
    obtain key inputs where kv: "kv = (key, inputs)" by force
    have tl: "size_list (size_prod (\<lambda>_. 0) size) params
                < size_list (size_prod (\<lambda>_. 0) size) ps"
      using Cons by simp
    note run = less.prems[unfolded Cons kv]
    show ?thesis
    proof (cases "\<exists>d. inputs = PDict d")
      case False
      with fetchInputs_scalar[OF _ run] obtain ins2 where
        s2: "fetchInputs e self params dd cd prefix n w = (Inr (ins2, n'), w')" and
        i: "ins = \<lparr>name = prefix @ key,
                    values_of = Inr (case inputs of PList l \<Rightarrow> l | x \<Rightarrow> [x])\<rparr> # ins2"
        by auto
      from less.hyps[OF tl s2] i False Cons kv show ?thesis
        by (cases inputs) (auto simp: count_files_def)
    next
      case True
      then obtain d where d: "inputs = PDict d" by auto
      have sub: "size_list (size_prod (\<lambda>_. 0) size) d
                   < size_list (size_prod (\<lambda>_. 0) size) ps"
        using Cons kv d by simp
      show ?thesis
      proof (cases "dict_get d ''c-l-a-s-s''")
        case None
        from fetchInputs_nested[OF None run[unfolded d]] obtain ins1 n1 w1 ins2 where
          s1: "fetchInputs e self d dd cd ((prefix @ key) @ ''.'') n w = (Inr (ins1, n1), w1)"
          and s2: "fetchInputs e self params dd cd prefix n1 w1 = (Inr (ins2, n'), w')"
          and i: "ins = ins1 @ ins2"
          by auto
        from less.hyps[OF sub s1] less.hyps[OF tl s2] i None Cons kv d show ?thesis
          by (simp add: count_files_def)
      next
        case (Some c)
        from fetchInputs_file[OF Some run[unfolded d]] obtain url pairs n1 w1 ins2 where
          c: "c = PStr ''File''" and
          s1: "stage_files e self (dict_get d ''security-context'') dd cd
                 (case url of PList l \<Rightarrow> l | v \<Rightarrow> [v]) n w = (Inr (pairs, n1), w1)" and
          s2: "fetchInputs e self params dd cd prefix n1 w1 = (Inr (ins2, n'), w')" and
          i: "ins = \<lparr>name = prefix @ key, values_of = Inl pairs\<rparr> # ins2"
          by auto
        from stage_files_count[OF s1] less.hyps[OF tl s2] i Some c Cons kv d show ?thesis
          by (simp add: count_files_def)
      qed
    qed
  qed
qed

text \<open>
  Claim C8. When the walk comes to a mapping node whose \<^verbatim>\<open>c-l-a-s-s\<close> is given (bound to a
  value other than \<^verbatim>\<open>None\<close>, as the code tests it) and is not \<^verbatim>\<open>"File"\<close>, \<^verbatim>\<open>fetchInputs\<close>
  raises the \<^verbatim>\<open>WFException\<close> for an unrecognized input class, which carries that
  class, and the world is as it was: the node is neither skipped nor descended into. By
  \<open>fetchInputs_props\<close> no walk over a tree that reaches such a node returns.
\<close>

theorem fetchInputs_unrecognized_class:
  assumes "dict_get d ''c-l-a-s-s'' = Some c" "c \<noteq> PStr ''File''"
  shows "fetchInputs e self ((key, PDict d) # params) dd cd prefix n w
           = (Inl (WFException (UnrecognizedInputClass c)), w)"
  using assms by simp

theorem fetchInputs_unrecognized_class_witness:
  "fetchInputs env0 wf0
     [(''sample'', PDict [(''c-l-a-s-s'', PStr ''Unknown''), (''url'', PStr ''https://h/data'')]),
      (''other'', PInt 1)]
     (Some ''/run/inputs'') (Some ''/c/wf-inputs'') [] 0 world0
   = (Inl (WFException (UnrecognizedInputClass (PStr ''Unknown''))), world0)"
proof -
  have c: "dict_get [(''c-l-a-s-s'', PStr ''Unknown''), (''url'', PStr ''https://h/data'')]
             ''c-l-a-s-s'' = Some (PStr ''Unknown'')"
    by (simp add: dict_get_def)
  have f: "PStr ''Unknown'' \<noteq> PStr ''File''" by simp
  show ?thesis by (rule fetchInputs_unrecognized_class[OF c f])
qed

text \<open>
  Claim C7, as the code has it. Let a File node name a security context under which the
  credentials configuration has nothing, and let its first URL have a scheme, a host and
  a path, be of a scheme with a registered handler, and not be in the input cache yet,
  the cache directory being there. Then the walk raises the \<^verbatim>\<open>WFException\<close> for a missing
  security context and the world is as it was: the handler has not been run. The context
  name is looked up on a cache miss only, after the scheme handler has been found.
\<close>

theorem fetchInputs_no_security_context:
  assumes "dict_get d ''c-l-a-s-s'' = Some (PStr ''File'')"
      and "map_of d ''url'' = Some url"
      and "(case url of PList l \<Rightarrow> l | v \<Rightarrow> [v]) = PStr u # others"
      and "dict_get d ''security-context'' = Some (PStr s)"
      and "map_of (creds_config self) s = None"
      and "scheme (urlparse e u) \<noteq> []" "netloc (urlparse e u) \<noteq> []"
      and "path (urlparse e u) \<noteq> []"
      and "(case cd of None \<Rightarrow> cacheWorkflowInputsDir self | Some x \<Rightarrow> x) \<in> paths w"
      and "cachedFilename_of e self u \<notin> paths w"
      and "map_of (schemeHandlers self) (str_lower (scheme (urlparse e u))) = Some h"
  shows "fetchInputs e self ((key, PDict d) # params) dd cd prefix n w
           = (Inl (WFException (NoSecurityContext (PStr s) u)), w)"
proof -
  have dl: "downloadInputFile e self u cd (Some (PStr s)) w
              = (Inl (WFException (NoSecurityContext (PStr s) u)), w)"
    using assms(5-11)
    by (auto simp: downloadInputFile_def Let_def cachedFilename_of_def get_secContext_def
                   dict_get_def
             split: if_splits sum.splits option.splits prod.splits)
  show ?thesis
    using assms(1-4) dl by (simp add: downloadInputValue_def)
qed

theorem fetchInputs_no_security_context_witness:
  "fetchInputs env0 wf0
     [(''sample'', PDict [(''c-l-a-s-s'', PStr ''File''), (''url'', PStr ''https://h/data''),
                         (''security-context'', PStr ''nope'')])]
     (Some ''/run/inputs'') (Some ''/c/wf-inputs'') [] 0 (world0\<lparr>paths := {''/c/wf-inputs''}\<rparr>)
   = (Inl (WFException (NoSecurityContext (PStr ''nope'') ''https://h/data'')),
      world0\<lparr>paths := {''/c/wf-inputs''}\<rparr>)"
  by (rule fetchInputs_no_security_context[where url = "PStr ''https://h/data''"
             and others = "[]" and h = handler0])
     (simp_all add: cachedFilename_of_def run0_defs)

text \<open>Claim C7 as the specification has it fails: with the file in the cache, a File
  node that names a context nobody configured is materialized all the same.\<close>

theorem fetchInputs_unknown_context_cached:
  "map_of (creds_config wf0) ''nope'' = None
   \<and> fst (fetchInputs env0 wf0
        [(''sample'', PDict [(''c-l-a-s-s'', PStr ''File''), (''url'', PStr ''https://h/data''),
                            (''security-context'', PStr ''nope'')])]
        (Some ''/run/inputs'') (Some ''/c/wf-inputs'') [] 0 world_cached)
     = Inr ([\<lparr>name = ''sample'',
              values_of = Inl [\<lparr>local = ''/run/inputs/data'', uri = ''https://h/data'',
                                prettyFilename = ''data''\<rparr>]\<rparr>], 1)"
  by (simp add: downloadInputFile_def run0_defs world_cached_def)

text \<open>
  Claim C5. Two URLs of one basename are meant to be staged under two names, the second
  one under the counter, an underscore and the basename. The renaming does not look
  whether that second name is free: with the URLs \<^verbatim>\<open>.../a/3_data\<close>, \<^verbatim>\<open>.../b/data\<close> and
  \<^verbatim>\<open>.../c/data\<close> in an empty destination, the third file is to be linked as
  \<^verbatim>\<open>3_data\<close>, which the first file already is, and \<^verbatim>\<open>os.symlink\<close> raises.
\<close>

theorem fetchInputs_collision_FileExistsError:
  "fst (fetchInputs env0 wf0
        [(''sample'', PDict [(''c-l-a-s-s'', PStr ''File''),
                            (''url'', PList [PStr ''https://h/a/3_data'', PStr ''https://h/b/data'',
                                            PStr ''https://h/c/data''])])]
        (Some ''/run/inputs'') (Some ''/c/wf-inputs'') [] 0 world0)
     = Inl (FileExistsError ''/run/inputs/3_data'')"
  by (simp add: downloadInputFile_def run0_defs str_of_nat.simps)

text \<open>Where the second name is free, the claim holds: the walk over two leaves of one
  basename, the second of them one level down.\<close>

lemma fetchInputs_two_leaves:
  "fst (fetchInputs env0 wf0
        [(''a'', PDict [(''c-l-a-s-s'', PStr ''File''), (''url'', PStr ''https://h/x/data.txt'')]),
         (''b'', PDict [(''n'', PDict [(''c-l-a-s-s'', PStr ''File''),
                                     (''url'', PStr ''https://h/y/data.txt'')])])]
        (Some ''/run/inputs'') (Some ''/c/wf-inputs'') [] 0 world0)
     = Inr ([\<lparr>name = ''a'',
              values_of = Inl [\<lparr>local = ''/run/inputs/data.txt'', uri = ''https://h/x/data.txt'',
                                prettyFilename = ''data.txt''\<rparr>]\<rparr>,
             \<lparr>name = ''b.n'',
              values_of = Inl [\<lparr>local = ''/run/inputs/2_data.txt'',
                                uri = ''https://h/y/data.txt'',
                                prettyFilename = ''data.txt''\<rparr>]\<rparr>], 2)"
  by (simp add: downloadInputFile_def run0_defs str_of_nat.simps)

section \<open>Selecting a version of the tool\<close>

lemma find_version_Some:
  "find_version v vs = Some tv \<Longrightarrow> tv \<in> set vs \<and> (\<exists>dt. tv = ToolVersion v dt)"
  by (induction v vs rule: find_version.induct) (auto split: if_splits)

lemma find_version_None:
  "find_version v vs = None \<longleftrightarrow> (\<forall>dt. ToolVersion v dt \<notin> set vs)"
  by (induction v vs rule: find_version.induct) auto

lemma latest_version_acc:
  "NotADict \<notin> set vs \<Longrightarrow>
     \<exists>tv i. latest_version vs acc cur = Inr (tv, i) \<and> cur \<le> i
        \<and> (\<forall>j dt. ToolVersion j dt \<in> set vs \<longrightarrow> j \<le> i)
        \<and> ((tv, i) = (acc, cur)
            \<or> (\<exists>dt. tv = Some (ToolVersion i dt) \<and> ToolVersion i dt \<in> set vs \<and> i \<noteq> []))"
proof (induction vs acc cur rule: latest_version.induct)
  case (1 toolVersion toolVersionId)
  then show ?case by simp
next
  case (2 vs toolVersion toolVersionId)
  then show ?case by simp
next
  case (3 i dt vs toolVersion toolVersionId)
  show ?case
  proof (cases "i \<noteq> [] \<and> toolVersionId < i")
    case True
    with 3 obtain tv k where
      r: "latest_version vs (Some (ToolVersion i dt)) i = Inr (tv, k)" and le: "i \<le> k" and
      mx: "\<forall>j dt. ToolVersion j dt \<in> set vs \<longrightarrow> j \<le> k" and
      w: "(tv, k) = (Some (ToolVersion i dt), i)
          \<or> (\<exists>dt. tv = Some (ToolVersion k dt) \<and> ToolVersion k dt \<in> set vs \<and> k \<noteq> [])"
      by auto
    from True r le mx w show ?thesis by auto
  next
    case False
    with 3 obtain tv k where
      r: "latest_version vs toolVersion toolVersionId = Inr (tv, k)" and le: "toolVersionId \<le> k" and
      mx: "\<forall>j dt. ToolVersion j dt \<in> set vs \<longrightarrow> j \<le> k" and
      w: "(tv, k) = (toolVersion, toolVersionId)
          \<or> (\<exists>dt. tv = Some (ToolVersion k dt) \<and> ToolVersion k dt \<in> set vs \<and> k \<noteq> [])"
      by auto
    have "i \<le> k" using False le by (cases "i = []") auto
    with False r le mx w show ?thesis by auto
  qed
qed

text \<open>
  Claim C2. When the version id of the instance is given and not empty, the version selected
  is an entry of the manifest whose id, as a string, equals it, and the \<^verbatim>\<open>WFException\<close>
  for a version that is not found is raised when there is no such entry. When the version
  id is \<^verbatim>\<open>None\<close> or empty (and every entry is a dict, as \<^verbatim>\<open>.get\<close> needs), the version
  selected is an entry with an id that is not empty and that no id of the manifest exceeds
  in the lexicographic order of strings; when no entry has such an id the
  \<^verbatim>\<open>WFException\<close> for no valid version is raised.
\<close>

theorem select_version_correct:
  "(version_id self = Some v \<and> v \<noteq> [] \<longrightarrow>
      (if \<exists>dt. ToolVersion v dt \<in> set vs
       then \<exists>dt. select_version self vs = Inr (ToolVersion v dt, v) \<and> ToolVersion v dt \<in> set vs
       else select_version self vs = Inl (WFException VersionNotFound)))
   \<and> ((version_id self = None \<or> version_id self = Some []) \<and> NotADict \<notin> set vs \<longrightarrow>
      (if \<exists>i dt. i \<noteq> [] \<and> ToolVersion i dt \<in> set vs
       then \<exists>i dt. select_version self vs = Inr (ToolVersion i dt, i)
              \<and> ToolVersion i dt \<in> set vs \<and> i \<noteq> []
              \<and> (\<forall>j dt'. ToolVersion j dt' \<in> set vs \<longrightarrow> j \<le> i)
       else select_version self vs = Inl (WFException NoValidVersion)))"
proof (intro conjI impI)
  assume a: "version_id self = Some v \<and> v \<noteq> []"
  show "if \<exists>dt. ToolVersion v dt \<in> set vs
        then \<exists>dt. select_version self vs = Inr (ToolVersion v dt, v) \<and> ToolVersion v dt \<in> set vs
        else select_version self vs = Inl (WFException VersionNotFound)"
  proof (cases "find_version v vs")
    case None
    with a find_version_None[of v vs] show ?thesis by (simp add: select_version_def)
  next
    case (Some tv)
    with a find_version_Some[OF Some] show ?thesis by (auto simp: select_version_def)
  qed
next
  assume a: "(version_id self = None \<or> version_id self = Some []) \<and> NotADict \<notin> set vs"
  from a latest_version_acc[of vs None "[]"] obtain tv k where
    r: "latest_version vs None [] = Inr (tv, k)" and
    mx: "\<forall>j dt. ToolVersion j dt \<in> set vs \<longrightarrow> j \<le> k" and
    w: "(tv, k) = (None, [])
        \<or> (\<exists>dt. tv = Some (ToolVersion k dt) \<and> ToolVersion k dt \<in> set vs \<and> k \<noteq> [])"
    by auto
  have sel: "select_version self vs =
               (case tv of None \<Rightarrow> Inl (WFException NoValidVersion) | Some t \<Rightarrow> Inr (t, k))"
    using a r by (auto simp: select_version_def split: option.splits)
  show "if \<exists>i dt. i \<noteq> [] \<and> ToolVersion i dt \<in> set vs
        then \<exists>i dt. select_version self vs = Inr (ToolVersion i dt, i)
               \<and> ToolVersion i dt \<in> set vs \<and> i \<noteq> []
               \<and> (\<forall>j dt'. ToolVersion j dt' \<in> set vs \<longrightarrow> j \<le> i)
        else select_version self vs = Inl (WFException NoValidVersion)"
  proof (cases "\<exists>i dt. i \<noteq> [] \<and> ToolVersion i dt \<in> set vs")
    case True
    then obtain i dt where "i \<noteq> []" "ToolVersion i dt \<in> set vs" by auto
    with mx have "k \<noteq> []" by (metis le_Nil)
    with w obtain dt' where "tv = Some (ToolVersion k dt')" "ToolVersion k dt' \<in> set vs" by auto
    with True sel mx \<open>k \<noteq> []\<close> show ?thesis by auto
  next
    case False
    with w have "tv = None" by auto
    with False sel show ?thesis by simp
  qed
qed

theorem select_version_correct_witness:
  "select_version wf0 (versions tool0) = Inr (ToolVersion ''1'' (DTList [''CWL'']), ''1'')
   \<and> (\<exists>i dt. select_version (wf0\<lparr>version_id := None\<rparr>) (versions tool0)
                 = Inr (ToolVersion i dt, i)
          \<and> ToolVersion i dt \<in> set (versions tool0) \<and> i \<noteq> []
          \<and> (\<forall>j dt'. ToolVersion j dt' \<in> set (versions tool0) \<longrightarrow> j \<le> i))
   \<and> select_version (wf0\<lparr>version_id := None\<rparr>) (versions tool0)
       = Inr (ToolVersion ''3'' (DTList [''CWL'', ''GALAXY'']), ''3'')"
proof -
  have ex1: "\<exists>dt. ToolVersion ''1'' dt \<in> set (versions tool0)"
    by (simp add: tool0_def)
  have ex2: "\<exists>i dt. i \<noteq> [] \<and> ToolVersion i dt \<in> set (versions tool0)"
    by (rule exI[of _ "''3''"]) (simp add: tool0_def)
  have nd: "NotADict \<notin> set (versions tool0)"
    by (simp add: tool0_def)
  have a: "version_id wf0 = Some ''1'' \<and> ''1'' \<noteq> []"
    by (simp add: wf0_def)
  have b: "(version_id (wf0\<lparr>version_id := None\<rparr>) = None
            \<or> version_id (wf0\<lparr>version_id := None\<rparr>) = Some [])
           \<and> NotADict \<notin> set (versions tool0)"
    using nd by simp
  from select_version_correct[of wf0 "''1''" "versions tool0"] a ex1
  have "\<exists>dt. select_version wf0 (versions tool0) = Inr (ToolVersion ''1'' dt, ''1'')
              \<and> ToolVersion ''1'' dt \<in> set (versions tool0)"
    by simp
  then have c1: "select_version wf0 (versions tool0)
                   = Inr (ToolVersion ''1'' (DTList [''CWL'']), ''1'')"
    by (auto simp: tool0_def)
  from select_version_correct[of "wf0\<lparr>version_id := None\<rparr>" "[]" "versions tool0"] b ex2
  have c2: "\<exists>i dt. select_version (wf0\<lparr>version_id := None\<rparr>) (versions tool0)
                     = Inr (ToolVersion i dt, i)
              \<and> ToolVersion i dt \<in> set (versions tool0) \<and> i \<noteq> []
              \<and> (\<forall>j dt'. ToolVersion j dt' \<in> set (versions tool0) \<longrightarrow> j \<le> i)"
    by simp
  have c3: "select_version (wf0\<lparr>version_id := None\<rparr>) (versions tool0)
              = Inr (ToolVersion ''3'' (DTList [''CWL'', ''GALAXY'']), ''3'')"
    by (simp add: select_version_def wf0_def tool0_def)
  from c1 c2 c3 show ?thesis by blast
qed

section \<open>The descriptor type is checked before the archive is fetched\<close>

text \<open>
  Claim C6. When the descriptor type asked for is not among the keys of
  \<^verbatim>\<open>RECOGNIZED_TRS_DESCRIPTORS\<close>, \<^verbatim>\<open>getWorkflowRepoFromTRS\<close> always raises, and the only
  request it has made by then is the lookup of the tool in the registry: the packaging
  archive is not fetched. When the lookup answered with a workflow and a version was
  selected that lists its descriptor types, the exception is one of the two descriptor
  type errors: not available when the version does not list the type, not acknowledged
  when it does.
\<close>

theorem getWorkflowRepoFromTRS_unknown_descriptor:
  assumes "descriptor_type self = Some dt" "RECOGNIZED_TRS_DESCRIPTORS self dt = None"
  shows "(\<exists>err. getWorkflowRepoFromTRS e self w
                  = (Inl err, w\<lparr>trace := trace w @ [UrlOpen (trs_tool_url_of e self)]\<rparr>))
         \<and> (\<forall>toolDesc i l k.
               trs_get e (trs_tool_url_of e self) w = Inr toolDesc
               \<and> toolclass_name toolDesc = ''Workflow''
               \<and> select_version self (versions toolDesc) = Inr (ToolVersion i (DTList l), k)
               \<longrightarrow> getWorkflowRepoFromTRS e self w
                     = (Inl (WFException (if dt \<in> set l then DescriptorTypeNotAcknowledged dt
                                          else DescriptorTypeNotAvailable dt)),
                        w\<lparr>trace := trace w @ [UrlOpen (trs_tool_url_of e self)]\<rparr>))"
proof -
  have ch: "\<And>tv. \<exists>err. choose_descriptor_type self tv = Inl err"
    using assms
    by (auto simp: choose_descriptor_type_def Let_def split: tool_version.splits descriptor_field.splits)
  have ch2: "\<And>i l. choose_descriptor_type self (ToolVersion i (DTList l))
               = Inl (WFException (if dt \<in> set l then DescriptorTypeNotAcknowledged dt
                                   else DescriptorTypeNotAvailable dt))"
    using assms by (simp add: choose_descriptor_type_def)
  have sv: "\<And>vs i l k. select_version self vs = Inr (ToolVersion i (DTList l), k) \<Longrightarrow> vs \<noteq> []"
    by (auto simp: select_version_def split: option.splits if_splits)
  show ?thesis
  proof (intro conjI allI impI)
    show "\<exists>err. getWorkflowRepoFromTRS e self w
                  = (Inl err, w\<lparr>trace := trace w @ [UrlOpen (trs_tool_url_of e self)]\<rparr>)"
    proof (cases "trs_get e (trs_tool_url_of e self) w")
      case (Inl err)
      then show ?thesis by (simp add: getWorkflowRepoFromTRS_def Let_def)
    next
      case (Inr toolDesc)
      show ?thesis
      proof (cases "select_version self (versions toolDesc)")
        case (Inl err)
        with Inr show ?thesis by (simp add: getWorkflowRepoFromTRS_def Let_def)
      next
        case sel: (Inr p)
        obtain tv k where p: "p = (tv, k)" by force
        from ch[of tv] obtain err where "choose_descriptor_type self tv = Inl err" by auto
        with Inr sel p show ?thesis by (simp add: getWorkflowRepoFromTRS_def Let_def)
      qed
    qed
  next
    fix toolDesc i l k
    assume a: "trs_get e (trs_tool_url_of e self) w = Inr toolDesc
               \<and> toolclass_name toolDesc = ''Workflow''
               \<and> select_version self (versions toolDesc) = Inr (ToolVersion i (DTList l), k)"
    with sv[of "versions toolDesc" i l k] ch2[of i l]
    show "getWorkflowRepoFromTRS e self w
            = (Inl (WFException (if dt \<in> set l then DescriptorTypeNotAcknowledged dt
                                 else DescriptorTypeNotAvailable dt)),
               w\<lparr>trace := trace w @ [UrlOpen (trs_tool_url_of e self)]\<rparr>)"
      by (simp add: getWorkflowRepoFromTRS_def Let_def)
  qed
qed

lemma getWorkflowRepoFromTRS_galaxy0:
  "getWorkflowRepoFromTRS env0 wf_galaxy world0
     = (Inl (WFException (DescriptorTypeNotAcknowledged ''GALAXY'')),
        world0\<lparr>trace := [UrlOpen ''https://trs.example.org/tools/42'']\<rparr>)"
  by (simp add: getWorkflowRepoFromTRS_def wf_galaxy_def trs_tool_url_of_def select_version_def
        choose_descriptor_type_def RECOGNIZED_TRS_DESCRIPTORS_def cwl_type_def tool0_def run0_defs)

theorem getWorkflowRepoFromTRS_unknown_descriptor_witness:
  "getWorkflowRepoFromTRS env0 wf_galaxy world0
     = (Inl (WFException (DescriptorTypeNotAcknowledged ''GALAXY'')),
        world0\<lparr>trace := trace world0 @ [UrlOpen (trs_tool_url_of env0 wf_galaxy)]\<rparr>)"
proof -
  have d: "descriptor_type wf_galaxy = Some ''GALAXY''"
    by (simp add: wf_galaxy_def)
  have r: "RECOGNIZED_TRS_DESCRIPTORS wf_galaxy ''GALAXY'' = None"
    by (simp add: RECOGNIZED_TRS_DESCRIPTORS_def wf_galaxy_def wf0_def cwl_type_def)
  have a: "trs_get env0 (trs_tool_url_of env0 wf_galaxy) world0 = Inr tool0
           \<and> toolclass_name tool0 = ''Workflow''
           \<and> select_version wf_galaxy (versions tool0)
               = Inr (ToolVersion ''3'' (DTList [''CWL'', ''GALAXY'']), ''3'')"
    by (simp add: env0_def tool0_def select_version_def wf_galaxy_def wf0_def)
  from getWorkflowRepoFromTRS_unknown_descriptor[OF d r, of env0 world0] a
  have "getWorkflowRepoFromTRS env0 wf_galaxy world0
          = (Inl (WFException (if ''GALAXY'' \<in> set [''CWL'', ''GALAXY'']
                               then DescriptorTypeNotAcknowledged ''GALAXY''
                               else DescriptorTypeNotAvailable ''GALAXY'')),
             world0\<lparr>trace := trace world0 @ [UrlOpen (trs_tool_url_of env0 wf_galaxy)]\<rparr>)"
    by blast
  then show ?thesis by simp
qed

text \<open>For contrast, with a descriptor type the backend has, the same registry answer leads
  to the download of the archive and to a repository.\<close>

lemma getWorkflowRepoFromTRS_cwl0:
  "fst (getWorkflowRepoFromTRS env0 wf0 world0)
     = Inr (cwl_type, Some ''https://github.com/owner/repo.git'', Some ''main'',
            Some ''wf/main.cwl'')
   \<and> trace (snd (getWorkflowRepoFromTRS env0 wf0 world0))
     = [UrlOpen ''https://trs.example.org/tools/42'',
        UrlOpen ''https://trs.example.org/tools/42/versions/1/CWL/files?format=zip'']"
  by (simp add: getWorkflowRepoFromTRS_def getWorkflowRepoFromROCrate_def downloadROcrate_def
        repo_of_wf_url_def urlunparse_def trs_tool_url_of_def select_version_def
        choose_descriptor_type_def RECOGNIZED_TRS_DESCRIPTORS_def
        RECOGNIZED_TRS_DESCRIPTORS_keys_def RECOGNIZED_ROCRATE_PROG_LANG_def cwl_type_def
        tool0_def run0_defs)

section \<open>Repository, tag and path out of the URL of the crate\<close>

lemma split_on_nonempty: "split_on c s \<noteq> []"
  by (induction s) (auto split: list.splits)

lemma split_on_no_sep: "c \<notin> set s \<Longrightarrow> split_on c s = [s]"
  by (induction s) auto

lemma split_on_append: "c \<notin> set s \<Longrightarrow> split_on c (s @ c # t) = s # split_on c t"
  by (induction s) (auto split: list.splits simp: split_on_nonempty)

lemma split_on_join:
  "segs \<noteq> [] \<Longrightarrow> \<forall>s\<in>set segs. c \<notin> set s \<Longrightarrow> split_on c (join_with [c] segs) = segs"
proof (induction "[c]" segs rule: join_with.induct)
  case 1
  then show ?case by simp
next
  case (2 x)
  then show ?case by (simp add: split_on_no_sep)
next
  case (3 x y ys)
  then show ?case by (simp add: split_on_append)
qed

text \<open>For a URL on \<^verbatim>\<open>github.com\<close> whose path is \<^verbatim>\<open>/owner/repo\<close> and more segments: the
  repository URL has the scheme and host of the URL and the path \<^verbatim>\<open>/owner/repo.git\<close>; tag
  and relative path are there when the segment after the repository is \<^verbatim>\<open>blob\<close>.\<close>

lemma repo_of_wf_url_github:
  assumes "netloc (urlparse e wf_url) = ''github.com''"
      and "path (urlparse e wf_url) = join_with ''/'' ([] # owner # repo # rest)"
      and "\<forall>s\<in>set (owner # repo # rest). CHR ''/'' \<notin> set s"
  shows "repo_of_wf_url e wf_url =
           Inr (Some (urlunparse (scheme (urlparse e wf_url)) ''github.com''
                        (''/'' @ owner @ ''/'' @ (if endswith repo ''.git'' then repo
                                                else repo @ ''.git''))),
                (case rest of b # rv # others \<Rightarrow> if b = ''blob'' then Some rv else None
                 | _ \<Rightarrow> None),
                (case rest of
                   b # rv # m # others \<Rightarrow>
                     if b = ''blob'' then Some (join_with ''/'' (m # others)) else None
                 | _ \<Rightarrow> None))"
proof -
  have sp: "split_on CHR ''/'' (path (urlparse e wf_url)) = [] # owner # repo # rest"
    using assms(2,3) split_on_join[of "[] # owner # repo # rest" "CHR ''/''"] by simp
  show ?thesis
  proof (cases rest)
    case Nil
    with sp assms(1) show ?thesis by (simp add: repo_of_wf_url_def Let_def)
  next
    case (Cons b r1)
    show ?thesis
    proof (cases r1)
      case Nil
      with Cons sp assms(1) show ?thesis by (simp add: repo_of_wf_url_def Let_def)
    next
      case c2: (Cons rv r2)
      show ?thesis
      proof (cases r2)
        case Nil
        with Cons c2 sp assms(1) show ?thesis by (simp add: repo_of_wf_url_def Let_def)
      next
        case c3: (Cons m others)
        with Cons c2 sp assms(1) show ?thesis by (simp add: repo_of_wf_url_def Let_def)
      qed
    qed
  qed
qed

lemma repo_of_wf_url_other_host:
  "netloc (urlparse e wf_url) \<noteq> ''github.com'' \<Longrightarrow>
     repo_of_wf_url e wf_url = Inl (WFException UnableToGuessRepository)"
  by (simp add: repo_of_wf_url_def Let_def)

lemma repo_of_wf_url_short_path:
  "netloc (urlparse e wf_url) = ''github.com'' \<Longrightarrow>
   length (split_on CHR ''/'' (path (urlparse e wf_url))) < 3 \<Longrightarrow>
     repo_of_wf_url e wf_url = Inr (None, None, None)"
  by (simp add: repo_of_wf_url_def Let_def)

text \<open>
  Claim C3. The derivation of repository URL, tag and relative path is as claimed
  (\<open>repo_of_wf_url_github\<close>), and another host is refused (\<open>repo_of_wf_url_other_host\<close>).
  But a URL on \<^verbatim>\<open>github.com\<close> whose path is too short for an owner and a repository is
  not refused: the \<^verbatim>\<open>else\<close> that raises belongs to the test of the host, so the resolver
  returns the engine with no repository URL at all.
\<close>

theorem getWorkflowRepoFromROCrate_short_path:
  "fst (getWorkflowRepoFromROCrate env_short wf0 ''https://trs.example.org/crate.zip''
          (Some ''https://w3id.org/cwl/v1.0/'') world0)
     = Inr (cwl_type, None, None, None)"
  by (simp add: getWorkflowRepoFromROCrate_def downloadROcrate_def env_short_def
        repo_of_wf_url_def urlunparse_def RECOGNIZED_ROCRATE_PROG_LANG_def cwl_type_def run0_defs)

section \<open>Containers\<close>

lemma inspect_or_pull_Inr:
  assumes "inspect_or_pull e t w = (Inr out, w')"
  shows "\<exists>u u' err. docker_inspect e t u = ((0, out, err), u')"
  using assms
  by (auto simp: inspect_or_pull_def run_inspect_def run_pull_def
           split: prod.splits if_splits)

lemma container_of_manifest_Inr:
  assumes "container_of_manifest tag dockerTag m = Inr c"
  shows "origTaggedName c = tag \<and> taggedName c = dockerTag \<and> ctype c = Docker
         \<and> py_getitem m ''Id'' = Inr (signature c)
         \<and> (\<exists>ds. py_getitem m ''RepoDigests'' = Inr ds
               \<and> ((py_nonempty ds = Inr False \<and> fingerprint c = None)
                   \<or> (py_nonempty ds = Inr True \<and> (\<exists>f. py_first ds = Inr f \<and> fingerprint c = Some f))))"
  using assms
  by (auto simp: container_of_manifest_def split: sum.splits if_splits)

lemma strip_docker_proto_eq:
  "strip_docker_proto tag = (if take 9 tag = ''docker://'' then drop 9 tag else tag)"
proof -
  have len: "length ''docker://'' = 9" by simp
  show ?thesis
    unfolding strip_docker_proto_def DOCKER_PROTO_def startswith_def len ..
qed

lemma is_container_of_head:
  assumes io: "inspect_or_pull e (strip_docker_proto tag) w = (Inr out, w1)"
      and fm: "first_manifest e tag out = Inr m"
      and cm: "container_of_manifest tag (strip_docker_proto tag) m = Inr c"
  shows "is_container_of e tag c"
proof -
  from inspect_or_pull_Inr[OF io] obtain u u' err where
    ins: "docker_inspect e (strip_docker_proto tag) u = ((0, out, err), u')" by auto
  from container_of_manifest_Inr[OF cm] obtain ds where
    c1: "origTaggedName c = tag" "taggedName c = strip_docker_proto tag" "ctype c = Docker"
        "py_getitem m ''Id'' = Inr (signature c)" "py_getitem m ''RepoDigests'' = Inr ds" and
    c2: "(py_nonempty ds = Inr False \<and> fingerprint c = None)
         \<or> (py_nonempty ds = Inr True \<and> (\<exists>f. py_first ds = Inr f \<and> fingerprint c = Some f))"
    by auto
  have "\<exists>u u' d_out_v d_err_v manifest.
            docker_inspect e (taggedName c) u = ((0, d_out_v, d_err_v), u')
            \<and> first_manifest e tag d_out_v = Inr manifest
            \<and> py_getitem manifest ''Id'' = Inr (signature c)
            \<and> (\<exists>digests. py_getitem manifest ''RepoDigests'' = Inr digests
                  \<and> ((py_nonempty digests = Inr False \<and> fingerprint c = None)
                      \<or> (py_nonempty digests = Inr True
                          \<and> (\<exists>f. py_first digests = Inr f \<and> fingerprint c = Some f))))"
    using ins fm c1 c2 by (intro exI[of _ u] exI[of _ u'] exI[of _ out] exI[of _ err] exI[of _ m]) auto
  with c1 show ?thesis
    unfolding is_container_of_def strip_docker_proto_eq[symmetric] by simp
qed

text \<open>
  Claim C10. When \<^verbatim>\<open>materializeContainers\<close> returns, it returns one container for each tag
  of the list, in the order of the list, and each is the container of its tag: the
  original tag as given, the tag without a leading \<^verbatim>\<open>docker://\<close> (unchanged without one),
  the \<^verbatim>\<open>Id\<close> of the inspect manifest as signature, and the first entry of
  \<^verbatim>\<open>RepoDigests\<close>, or \<^verbatim>\<open>None\<close> when there is none, as fingerprint.
\<close>

theorem materializeContainers_correct:
  assumes "materializeContainers e tagList w = (Inr containersList, w')"
  shows "list_all2 (is_container_of e) tagList containersList"
  using assms
proof (induction tagList arbitrary: w containersList w')
  case Nil
  then show ?case by simp
next
  case (Cons tag tagList)
  from Cons.prems obtain out w1 m c cs where
    io: "inspect_or_pull e (strip_docker_proto tag) w = (Inr out, w1)" and
    fm: "first_manifest e tag out = Inr m" and
    cm: "container_of_manifest tag (strip_docker_proto tag) m = Inr c" and
    rest: "materializeContainers e tagList w1 = (Inr cs, w')" and
    cl: "containersList = c # cs"
    by (auto simp: Let_def split: prod.splits sum.splits)
  from is_container_of_head[OF io fm cm] Cons.IH[OF rest] cl show ?case by simp
qed

lemma materializeContainers_run0:
  "fst (materializeContainers env0 [''docker://busybox:1'', ''busybox:1''] world0)
     = Inr [\<lparr>origTaggedName = ''docker://busybox:1'', taggedName = ''busybox:1'',
             signature = PStr ''sha256:aa'', fingerprint = Some (PStr ''busybox@sha256:bb''),
             ctype = Docker\<rparr>,
            \<lparr>origTaggedName = ''busybox:1'', taggedName = ''busybox:1'',
             signature = PStr ''sha256:aa'', fingerprint = Some (PStr ''busybox@sha256:bb''),
             ctype = Docker\<rparr>]"
  by (simp add: inspect_or_pull_def run_inspect_def run_pull_def first_manifest_def py_first_def
        container_of_manifest_def py_getitem_def py_nonempty_def manifest0_def
        strip_docker_proto_def DOCKER_PROTO_def run0_defs)

theorem materializeContainers_correct_witness:
  "list_all2 (is_container_of env0) [''docker://busybox:1'', ''busybox:1'']
     [\<lparr>origTaggedName = ''docker://busybox:1'', taggedName = ''busybox:1'',
       signature = PStr ''sha256:aa'', fingerprint = Some (PStr ''busybox@sha256:bb''),
       ctype = Docker\<rparr>,
      \<lparr>origTaggedName = ''busybox:1'', taggedName = ''busybox:1'',
       signature = PStr ''sha256:aa'', fingerprint = Some (PStr ''busybox@sha256:bb''),
       ctype = Docker\<rparr>]"
proof -
  let ?c = "materializeContainers env0 [''docker://busybox:1'', ''busybox:1''] world0"
  have "?c = (fst ?c, snd ?c)" by simp
  then show ?thesis
    using materializeContainers_correct[of env0 "[''docker://busybox:1'', ''busybox:1'']"
            world0 _ "snd ?c"]
    by (simp only: materializeContainers_run0)
qed

end
